theory Spec2Isabelle
  imports Main
begin

section \<open>Python strings\<close>

text \<open>
  A Python \<open>str\<close> is a sequence of Unicode code points, so it is modelled as a list of
  natural numbers (one per code point), not as a list of bytes: \<open>str.strip\<close> and
  \<open>str.lstrip\<close> of \<^verbatim>\<open>main.py\<close> work on code points, and the bullet glyphs U+2022 and
  U+25E6 are single characters there. ASCII literals are written \<open>py ''...''\<close>.
\<close>

type_synonym pystr = "nat list"

definition py :: "string \<Rightarrow> pystr" where
  "py s = map of_char s"

definition newline :: nat where
  "newline = 10"

definition colon :: nat where
  "colon = 58"

definition bullet :: nat where
  \<comment> \<open>U+2022, the glyph of point lines\<close>
  "bullet = 8226"

definition white_bullet :: nat where
  \<comment> \<open>U+25E6, the glyph of sub-point lines\<close>
  "white_bullet = 9702"

definition is_space :: "nat \<Rightarrow> bool" where
  \<comment> \<open>the characters \<open>str.strip()\<close> removes: CPython's Unicode whitespace table\<close>
  "is_space c =
     ((9 \<le> c \<and> c \<le> 13) \<or> (28 \<le> c \<and> c \<le> 32) \<or> c = 133 \<or> c = 160 \<or> c = 5760
      \<or> (8192 \<le> c \<and> c \<le> 8202) \<or> c = 8232 \<or> c = 8233 \<or> c = 8239 \<or> c = 8287
      \<or> c = 12288)"

definition strip :: "pystr \<Rightarrow> pystr" where
  \<comment> \<open>\<open>s.strip()\<close>\<close>
  "strip s = rev (dropWhile is_space (rev (dropWhile is_space s)))"

definition lstrip_chars :: "pystr \<Rightarrow> pystr \<Rightarrow> pystr" where
  \<comment> \<open>\<open>s.lstrip(chars)\<close>: drops leading characters that occur in \<open>chars\<close>\<close>
  "lstrip_chars chars s = dropWhile (\<lambda>c. c \<in> set chars) s"

definition startswith :: "pystr \<Rightarrow> pystr \<Rightarrow> bool" where
  \<comment> \<open>\<open>s.startswith(p)\<close>\<close>
  "startswith s p = (take (length p) s = p)"

definition endswith :: "pystr \<Rightarrow> pystr \<Rightarrow> bool" where
  \<comment> \<open>\<open>s.endswith(p)\<close>\<close>
  "endswith s p = (length p \<le> length s \<and> drop (length s - length p) s = p)"

function replace_all :: "pystr \<Rightarrow> pystr \<Rightarrow> pystr \<Rightarrow> pystr" where
  "replace_all old new [] = (if old = [] then new else [])"
| "replace_all old new (c # cs) =
     (if old = [] then new @ c # replace_all old new cs
      else if startswith (c # cs) old
        then new @ replace_all old new (drop (length old) (c # cs))
      else c # replace_all old new cs)"
  by pat_completeness auto
termination
  by (relation "measure (\<lambda>(old, new, s). length s)") auto

text \<open>
  \<open>replace_all old new s\<close> is \<open>s.replace(old, new)\<close>: every non-overlapping occurrence
  of \<open>old\<close>, found from the left, is replaced.
\<close>

fun split_char :: "nat \<Rightarrow> pystr \<Rightarrow> pystr list" where
  "split_char sep [] = [[]]"
| "split_char sep (c # cs) =
     (if c = sep then [] # split_char sep cs
      else (case split_char sep cs of
              [] \<Rightarrow> [[c]]
            | r # rs \<Rightarrow> (c # r) # rs))"

text \<open>\<open>split_char sep s\<close> is \<open>s.split(sep)\<close> for a one-character separator.\<close>

datatype exn = IndexError | Exception pystr

fun str_exn :: "exn \<Rightarrow> pystr" where
  "str_exn IndexError = py ''list index out of range''"
| "str_exn (Exception msg) = msg"

definition split1_snd :: "nat \<Rightarrow> pystr \<Rightarrow> exn + pystr" where
  \<comment> \<open>\<open>s.split(sep, 1)[1]\<close>: the text after the first separator; IndexError without one\<close>
  "split1_snd sep s =
     (case dropWhile (\<lambda>c. c \<noteq> sep) s of
        [] \<Rightarrow> Inl IndexError
      | _ # rest \<Rightarrow> Inr rest)"

fun str_of_nat :: "nat \<Rightarrow> pystr" where
  "str_of_nat n =
     (if n < 10 then [48 + n] else str_of_nat (n div 10) @ [48 + n mod 10])"

definition ascii_upper :: "pystr \<Rightarrow> pystr" where
  \<comment> \<open>\<open>str.upper\<close> on ASCII text; the renderers take the full Unicode mapping as a parameter\<close>
  "ascii_upper s = map (\<lambda>c. if 97 \<le> c \<and> c \<le> 122 then c - 32 else c) s"

definition os_path_join :: "pystr \<Rightarrow> pystr \<Rightarrow> pystr" where
  \<comment> \<open>\<open>os.path.join(a, b)\<close> (POSIX)\<close>
  "os_path_join a b =
     (if startswith b (py ''/'') then b
      else if a = [] \<or> endswith a (py ''/'') then a @ b
      else a @ py ''/'' @ b)"

section \<open>Data model\<close>

text \<open>
  A section is the dictionary \<open>{'title', 'points', 'sub_points'}\<close>; the key
  \<open>'sub_points'\<close> is absent from the template sections, which is \<open>None\<close> here.
\<close>

record Section =
  title :: pystr
  points :: "pystr list"
  sub_points :: "pystr list option"

record qna_pair =
  question :: pystr
  answer :: pystr

record student_info =
  name :: pystr
  roll :: pystr
  college :: pystr
  semester :: pystr
  branch :: pystr

section \<open>Outline parser (\<open>generate_detailed_content\<close>, lines 233 to 265)\<close>

record outline_state =
  sections :: "Section list"
  current_section :: "Section option"

definition flush_section :: "outline_state \<Rightarrow> Section list" where
  \<comment> \<open>\<open>if current_section: sections.append(current_section)\<close>\<close>
  "flush_section st =
     (case current_section st of
        None \<Rightarrow> sections st
      | Some cur \<Rightarrow> sections st @ [cur])"

definition add_point :: "pystr \<Rightarrow> outline_state \<Rightarrow> outline_state" where
  \<comment> \<open>\<open>if point: current_section['points'].append(point)\<close>\<close>
  "add_point point st =
     (if point \<noteq> []
      then st\<lparr>current_section :=
              map_option (\<lambda>cur. cur\<lparr>points := points cur @ [point]\<rparr>) (current_section st)\<rparr>
      else st)"

definition is_section_start :: "pystr \<Rightarrow> bool" where
  \<comment> \<open>line 244: \<open>line.startswith('Section') and ':' in line\<close>\<close>
  "is_section_start line = (startswith line (py ''Section'') \<and> colon \<in> set line)"

definition section_title :: "pystr \<Rightarrow> exn + pystr" where
  \<comment> \<open>line 248: \<open>line.split(':', 1)[1].strip()\<close>\<close>
  "section_title line =
     (case split1_snd colon line of
        Inl e \<Rightarrow> Inl e
      | Inr rest \<Rightarrow> Inr (strip rest))"

definition outline_step :: "outline_state \<Rightarrow> pystr \<Rightarrow> exn + outline_state" where
  "outline_step st raw =
     (let line = strip raw in
      if line = [] then Inr st
      else if is_section_start line then
        (case section_title line of
           Inl e \<Rightarrow> Inl e
         | Inr t \<Rightarrow>
             Inr \<lparr>sections = flush_section st,
                  current_section = Some \<lparr>title = t, points = [], sub_points = Some []\<rparr>\<rparr>)
      else if startswith line (py ''-'') \<and> current_section st \<noteq> None then
        Inr (add_point (strip (lstrip_chars (py ''- '') line)) st)
      else if startswith line [bullet] \<and> current_section st \<noteq> None then
        Inr (add_point (strip (lstrip_chars [bullet, 32] line)) st)
      else Inr st)"

fun outline_loop :: "outline_state \<Rightarrow> pystr list \<Rightarrow> exn + outline_state" where
  "outline_loop st [] = Inr st"
| "outline_loop st (l # ls) =
     (case outline_step st l of
        Inl e \<Rightarrow> Inl e
      | Inr st' \<Rightarrow> outline_loop st' ls)"

definition parse_outline :: "pystr \<Rightarrow> exn + Section list" where
  "parse_outline detailed_content =
     (case outline_loop \<lparr>sections = [], current_section = None\<rparr>
             (split_char newline detailed_content) of
        Inl e \<Rightarrow> Inl e
      | Inr st \<Rightarrow> Inr (flush_section st))"

section \<open>Fallback templates of \<open>generate_detailed_content\<close>\<close>

definition fallback_sections :: "pystr \<Rightarrow> Section list" where
  \<comment> \<open>lines 269 to 324: the dictionaries have no \<open>'sub_points'\<close> key\<close>
  "fallback_sections topic =
     [\<lparr>title = py ''Introduction and Overview'',
       points =
         [py ''Definition and scope of '' @ topic,
          py ''Importance in current technological landscape'',
          py ''Objectives of this presentation'',
          py ''Expected outcomes and benefits''],
       sub_points = None\<rparr>,
      \<lparr>title = py ''Literature Review and Background'',
       points =
         [py ''Historical development and evolution'',
          py ''Key research contributions'',
          py ''Current state of technology'',
          py ''Gaps in existing knowledge''],
       sub_points = None\<rparr>,
      \<lparr>title = py ''Core Concepts and Methodology'',
       points =
         [py ''Fundamental principles and theories'',
          py ''Technical architecture and design'',
          py ''Implementation methodologies'',
          py ''Performance metrics and evaluation''],
       sub_points = None\<rparr>,
      \<lparr>title = py ''Applications and Case Studies'',
       points =
         [py ''Industry applications and use cases'',
          py ''Real-world implementation examples'',
          py ''Success stories and best practices'',
          py ''Comparative analysis with alternatives''],
       sub_points = None\<rparr>,
      \<lparr>title = py ''Challenges and Limitations'',
       points =
         [py ''Technical challenges and constraints'',
          py ''Implementation barriers'',
          py ''Cost and resource considerations'',
          py ''Scalability and performance issues''],
       sub_points = None\<rparr>,
      \<lparr>title = py ''Future Scope and Recommendations'',
       points =
         [py ''Emerging trends and opportunities'',
          py ''Research directions and possibilities'',
          py ''Recommendations for implementation'',
          py ''Expected future developments''],
       sub_points = None\<rparr>]"

definition exception_sections :: "pystr \<Rightarrow> Section list" where
  \<comment> \<open>lines 331 to 348: what the \<open>except\<close> handler returns\<close>
  "exception_sections topic =
     [\<lparr>title = py ''Introduction'',
       points =
         [py ''Overview of '' @ topic,
          py ''Significance and applications'',
          py ''Presentation objectives''],
       sub_points = None\<rparr>,
      \<lparr>title = py ''Technical Details'',
       points =
         [py ''Core concepts'',
          py ''Implementation methods'',
          py ''Key features''],
       sub_points = None\<rparr>,
      \<lparr>title = py ''Applications'',
       points =
         [py ''Industry use cases'',
          py ''Practical examples'',
          py ''Benefits and advantages''],
       sub_points = None\<rparr>,
      \<lparr>title = py ''Future Scope'',
       points =
         [py ''Emerging trends'',
          py ''Research opportunities'',
          py ''Potential developments''],
       sub_points = None\<rparr>]"

section \<open>\<open>gpt_generate\<close> and \<open>generate_detailed_content\<close>\<close>

text \<open>
  The text provider is external. The parameter \<open>provider\<close> gives, for a prompt and a token
  limit, the outcome of the \<open>try\<close> block of \<open>gpt_generate\<close> up to the content string:
  \<open>Inr\<close> the content of the first choice, \<open>Inl\<close> the exception raised by the call or by the
  reads of its response. \<open>gpt_generate\<close> catches every exception and returns a placeholder
  text made of the first 50 characters of the prompt.
\<close>

definition gpt_generate :: "(pystr \<Rightarrow> nat \<Rightarrow> exn + pystr) \<Rightarrow> pystr \<Rightarrow> nat \<Rightarrow> pystr" where
  \<comment> \<open>lines 40 to 51\<close>
  "gpt_generate provider prompt max_tokens =
     (case provider prompt max_tokens of
        Inr content \<Rightarrow> strip content
      | Inl e \<Rightarrow> py ''Error generating content for: '' @ take 50 prompt @ py ''...'')"

definition structure_prompt :: "pystr \<Rightarrow> pystr" where
  \<comment> \<open>lines 190 to 228; \<open>[34]\<close> is the double quote\<close>
  "structure_prompt topic =
     (py ''Create a detailed seminar presentation structure for the topic '' @ [34] @ topic @ [34] @ py ''.'' @ [newline]
        @ py ''    '' @ [newline]
        @ py ''    Generate exactly 6 main sections with the following format:'' @ [newline]
        @ py ''    '' @ [newline]
        @ py ''    Section 1: Introduction'' @ [newline]
        @ py ''    - Brief overview'' @ [newline]
        @ py ''    - Importance and relevance'' @ [newline]
        @ py ''    - Scope of discussion'' @ [newline]
        @ py ''    '' @ [newline]
        @ py ''    Section 2: Historical Background / Literature Review'' @ [newline]
        @ py ''    - Origins and development'' @ [newline]
        @ py ''    - Key milestones'' @ [newline]
        @ py ''    - Previous research'' @ [newline]
        @ py ''    '' @ [newline]
        @ py ''    Section 3: Core Concepts / Theoretical Framework'' @ [newline]
        @ py ''    - Fundamental principles'' @ [newline]
        @ py ''    - Key definitions'' @ [newline]
        @ py ''    - Technical aspects'' @ [newline]
        @ py ''    '' @ [newline]
        @ py ''    Section 4: Applications / Implementation'' @ [newline]
        @ py ''    - Real-world applications'' @ [newline]
        @ py ''    - Use cases'' @ [newline]
        @ py ''    - Industry adoption'' @ [newline]
        @ py ''    '' @ [newline]
        @ py ''    Section 5: Challenges and Solutions'' @ [newline]
        @ py ''    - Current limitations'' @ [newline]
        @ py ''    - Technical challenges'' @ [newline]
        @ py ''    - Proposed solutions'' @ [newline]
        @ py ''    '' @ [newline]
        @ py ''    Section 6: Future Trends / Research Directions'' @ [newline]
        @ py ''    - Emerging trends'' @ [newline]
        @ py ''    - Future possibilities'' @ [newline]
        @ py ''    - Research opportunities'' @ [newline]
        @ py ''    '' @ [newline]
        @ py ''    For each section, provide:'' @ [newline]
        @ py ''    - 3-4 main bullet points'' @ [newline]
        @ py ''    - 2-3 detailed sub-points for each main point'' @ [newline]
        @ py ''    '' @ [newline]
        @ py ''    Make the content technical and suitable for academic presentation.'')"

text \<open>
  \<open>detailed_content_try\<close> is the rest of the \<open>try\<close> block (lines 233 to 326) from the
  generated text on; \<open>generate_detailed_content\<close> is the whole function, with the call of
  \<open>gpt_generate\<close> and the \<open>except Exception\<close> handler.
\<close>

definition detailed_content_try :: "pystr \<Rightarrow> pystr \<Rightarrow> exn + Section list" where
  "detailed_content_try topic detailed_content =
     (case parse_outline detailed_content of
        Inl e \<Rightarrow> Inl e
      | Inr parsed \<Rightarrow> Inr (if length parsed < 4 then fallback_sections topic else parsed))"

definition generate_detailed_content ::
  "(pystr \<Rightarrow> nat \<Rightarrow> exn + pystr) \<Rightarrow> pystr \<Rightarrow> Section list" where
  "generate_detailed_content provider topic =
     (case detailed_content_try topic
             (gpt_generate provider (structure_prompt topic) 1500) of
        Inl e \<Rightarrow> exception_sections topic
      | Inr result \<Rightarrow> result)"

section \<open>Question and answer parser (\<open>generate_kit\<close>, lines 456 to 496)\<close>

record qna_state =
  qna_pairs :: "qna_pair list"
  current_q :: pystr
  current_a :: pystr

definition flush_pair :: "qna_state \<Rightarrow> qna_pair list" where
  \<comment> \<open>\<open>if current_q and current_a: qna_pairs.append({...})\<close>\<close>
  "flush_pair st =
     (if current_q st \<noteq> [] \<and> current_a st \<noteq> []
      then qna_pairs st @ [\<lparr>question = current_q st, answer = current_a st\<rparr>]
      else qna_pairs st)"

definition is_question_line :: "pystr \<Rightarrow> bool" where
  \<comment> \<open>line 463\<close>
  "is_question_line line = (startswith line (py ''Q:'') \<or> startswith line (py ''Question''))"

definition question_text :: "pystr \<Rightarrow> pystr" where
  \<comment> \<open>line 466: \<open>line.replace('Q:', '').replace('Question:', '').strip()\<close>\<close>
  "question_text line =
     strip (replace_all (py ''Question:'') [] (replace_all (py ''Q:'') [] line))"

definition is_answer_line :: "pystr \<Rightarrow> bool" where
  \<comment> \<open>line 468\<close>
  "is_answer_line line = (startswith line (py ''A:'') \<or> startswith line (py ''Answer''))"

definition answer_text :: "pystr \<Rightarrow> pystr" where
  \<comment> \<open>line 469: \<open>line.replace('A:', '').replace('Answer:', '').strip()\<close>\<close>
  "answer_text line =
     strip (replace_all (py ''Answer:'') [] (replace_all (py ''A:'') [] line))"

definition qna_step :: "qna_state \<Rightarrow> pystr \<Rightarrow> qna_state" where
  "qna_step st raw =
     (let line = strip raw in
      if is_question_line line then
        \<lparr>qna_pairs = flush_pair st, current_q = question_text line, current_a = []\<rparr>
      else if is_answer_line line then
        st\<lparr>current_a := answer_text line\<rparr>
      else if current_a st \<noteq> [] \<and> line \<noteq> [] \<and> \<not> startswith line (py ''Q:'') then
        st\<lparr>current_a := current_a st @ py '' '' @ line\<rparr>
      else st)"

definition parse_qna :: "pystr \<Rightarrow> qna_pair list" where
  "parse_qna qna_text =
     flush_pair (foldl qna_step \<lparr>qna_pairs = [], current_q = [], current_a = []\<rparr>
                   (split_char newline qna_text))"

definition fallback_qna :: "pystr \<Rightarrow> qna_pair list" where
  \<comment> \<open>lines 479 to 496\<close>
  "fallback_qna topic =
     [\<lparr>question = py ''What is '' @ topic @ py '' and why is it important?'',
       answer = topic @ py '' is a significant technological advancement that plays a crucial role in modern applications. Its importance lies in its ability to solve complex problems and improve efficiency in various domains.''\<rparr>,
      \<lparr>question = py ''What are the key technical components of '' @ topic @ py ''?'',
       answer = py ''The main technical components include core algorithms, implementation frameworks, and supporting infrastructure. These components work together to provide comprehensive functionality.''\<rparr>,
      \<lparr>question = py ''What are the real-world applications of '' @ topic @ py ''?'',
       answer = topic @ py '' finds applications in multiple industries including healthcare, finance, manufacturing, and telecommunications. It enables automation and optimization of complex processes.''\<rparr>,
      \<lparr>question = py ''What are the main advantages and limitations of '' @ topic @ py ''?'',
       answer = py ''Key advantages include improved efficiency, scalability, and cost-effectiveness. However, limitations may include implementation complexity, resource requirements, and technical constraints.''\<rparr>,
      \<lparr>question = py ''What does the future hold for '' @ topic @ py ''?'',
       answer = py ''Future developments in '' @ topic @ py '' are expected to focus on enhanced performance, broader applications, and integration with emerging technologies. Research continues to address current limitations.''\<rparr>,
      \<lparr>question = py ''How does '' @ topic @ py '' compare with alternative approaches?'',
       answer = py ''Compared to traditional methods, '' @ topic @ py '' offers superior performance in terms of speed, accuracy, and scalability. However, the choice depends on specific requirements and constraints.''\<rparr>,
      \<lparr>question = py ''What are the main challenges in implementing '' @ topic @ py ''?'',
       answer = py ''Implementation challenges include technical complexity, resource allocation, skill requirements, and integration with existing systems. Proper planning and expertise are essential for success.''\<rparr>,
      \<lparr>question = py ''What research opportunities exist in '' @ topic @ py ''?'',
       answer = py ''Research opportunities include algorithm optimization, new application domains, performance enhancement, and addressing current limitations. Interdisciplinary collaboration can lead to breakthrough innovations.''\<rparr>]"

definition generate_kit_qna :: "pystr \<Rightarrow> pystr \<Rightarrow> qna_pair list" where
  \<comment> \<open>the value of \<open>qna_pairs\<close> at line 498, from the topic and the generated text\<close>
  "generate_kit_qna topic qna_text =
     (let parsed = parse_qna qna_text in
      if length parsed < 5 then fallback_qna topic else parsed)"

section \<open>Slide renderer (\<open>generate_enhanced_pptx\<close>)\<close>

text \<open>
  A slide is its layout index, the text of its title shape and the text of its placeholder 1.
  Font sizes, colours and alignment are set by the source after the text and are not part of
  the model. \<open>str.upper\<close> is the parameter \<open>upper\<close>.
\<close>

record slide =
  layout :: nat
  slide_title :: pystr
  placeholder1 :: pystr

definition title_slide :: "(pystr \<Rightarrow> pystr) \<Rightarrow> pystr \<Rightarrow> student_info \<Rightarrow> slide" where
  \<comment> \<open>lines 65 to 84\<close>
  "title_slide upper topic info =
     \<lparr>layout = 0,
      slide_title = upper topic,
      placeholder1 =
        py ''Presented by: '' @ name info @ [newline]
        @ py ''Roll No: '' @ roll info @ [newline]
        @ college info @ [newline]
        @ py ''Semester: '' @ semester info @ py '' | Branch: '' @ branch info @ [newline]
        @ [newline]
        @ py ''Academic Seminar Presentation''\<rparr>"

definition agenda_text :: "Section list \<Rightarrow> pystr" where
  \<comment> \<open>lines 102 to 104\<close>
  "agenda_text secs =
     foldl (\<lambda>text (i, sec). text @ str_of_nat i @ py ''. '' @ title sec @ [newline]) []
       (List.enumerate 1 secs)"

definition agenda_slide :: "Section list \<Rightarrow> slide" where
  \<comment> \<open>lines 90 to 106\<close>
  "agenda_slide secs =
     \<lparr>layout = 1,
      slide_title = py ''PRESENTATION AGENDA'',
      placeholder1 = agenda_text secs\<rparr>"

definition content_text :: "Section \<Rightarrow> pystr" where
  \<comment> \<open>lines 125 to 135; \<open>'sub_points' in section\<close> tests the key, not the list\<close>
  "content_text sec =
     (let main_points =
            foldl (\<lambda>text point. text @ [bullet, 32] @ point @ [newline]) [] (points sec)
      in case sub_points sec of
           None \<Rightarrow> main_points
         | Some subs \<Rightarrow>
             foldl (\<lambda>text sub_point. text @ [32, 32, white_bullet, 32] @ sub_point @ [newline])
               (main_points @ [newline] @ py ''Key Details:'' @ [newline]) subs)"

definition content_slide :: "(pystr \<Rightarrow> pystr) \<Rightarrow> Section \<Rightarrow> slide" where
  \<comment> \<open>lines 114 to 137\<close>
  "content_slide upper sec =
     \<lparr>layout = 1,
      slide_title = upper (title sec),
      placeholder1 = content_text sec\<rparr>"

definition conclusion_slide :: "pystr \<Rightarrow> slide" where
  \<comment> \<open>lines 149 to 167\<close>
  "conclusion_slide topic =
     \<lparr>layout = 1,
      slide_title = py ''CONCLUSION & FUTURE SCOPE'',
      placeholder1 =
        [bullet, 32] @ topic @ py '' represents a significant advancement in technology''
        @ [newline, bullet, 32] @ py ''Widespread applications across multiple industries''
        @ [newline, bullet, 32] @ py ''Continuous research and development ongoing''
        @ [newline, bullet, 32]
        @ py ''Future implementation will revolutionize current practices''
        @ [newline, bullet, 32] @ py ''Potential for further innovation and improvement''
        @ [newline, newline] @ py ''Thank you for your attention!''
        @ [newline] @ py ''Questions & Discussion''\<rparr>"

definition presentation ::
  "(pystr \<Rightarrow> pystr) \<Rightarrow> pystr \<Rightarrow> Section list \<Rightarrow> student_info \<Rightarrow> slide list" where
  \<comment> \<open>the slides of \<open>prs\<close> when line 173 saves it, in the order of the \<open>add_slide\<close> calls\<close>
  "presentation upper topic secs info =
     [title_slide upper topic info, agenda_slide secs]
     @ map (content_slide upper) secs
     @ [conclusion_slide topic]"

text \<open>
  The artifact store is a map from a path to the size of the file there (\<open>None\<close>: nothing
  exists at the path), which is what \<open>os.path.exists\<close> and \<open>os.path.getsize\<close> read.
  Building and saving are the library's. The parameter \<open>build\<close> gives the exception the
  library raises while the document is built from these texts, if any (python-docx refuses a
  text with a control character); nothing is written then. The parameter \<open>save\<close> takes the
  document, the path and the store and returns the exception it raised, if any, and the store
  it left.
\<close>

type_synonym fs = "pystr \<Rightarrow> nat option"

definition generate_enhanced_pptx ::
  "(pystr \<Rightarrow> pystr) \<Rightarrow> (slide list \<Rightarrow> exn option) \<Rightarrow> pystr \<Rightarrow> pystr
     \<Rightarrow> (slide list \<Rightarrow> pystr \<Rightarrow> fs \<Rightarrow> exn option \<times> fs)
     \<Rightarrow> pystr \<Rightarrow> Section list \<Rightarrow> student_info \<Rightarrow> fs \<Rightarrow> (exn + pystr) \<times> fs" where
  "generate_enhanced_pptx upper build STATIC_PATH file_id save topic secs info fs0 =
     (let filename = py ''seminar_'' @ file_id @ py ''.pptx'';
          file_path = os_path_join STATIC_PATH filename;
          prs = presentation upper topic secs info
      in case build prs of
           Some e \<Rightarrow>
             (Inl (Exception (py ''Failed to create enhanced PPTX: '' @ str_exn e)), fs0)
         | None \<Rightarrow>
             (case save prs file_path fs0 of
                (Some e, fs1) \<Rightarrow>
                  (Inl (Exception (py ''Failed to create enhanced PPTX: '' @ str_exn e)), fs1)
              | (None, fs1) \<Rightarrow>
                  if fs1 file_path = None
                  then (Inl (Exception (py ''Failed to create enhanced PPTX: ''
                               @ py ''PPTX file was not created at '' @ file_path)), fs1)
                  else (Inr filename, fs1)))"

section \<open>Report renderer (\<open>generate_docx\<close>)\<close>

datatype docx_block =
    Heading pystr nat
  | Paragraph pystr
  | StyledParagraph pystr pystr
  | PageBreak

definition section_blocks :: "nat \<times> Section \<Rightarrow> docx_block list" where
  \<comment> \<open>lines 379 to 389; the sub-points need the key and a non-empty list\<close>
  "section_blocks p =
     (case p of (i, sec) \<Rightarrow>
        [Heading (str_of_nat i @ py ''. '' @ title sec) 1]
        @ map (\<lambda>point. Paragraph ([bullet, 32] @ point)) (points sec)
        @ (case sub_points sec of
             None \<Rightarrow> []
           | Some subs \<Rightarrow>
               if subs \<noteq> []
               then Paragraph (py ''Detailed Information:'')
                    # map (\<lambda>sub_point. Paragraph ([32, 32, white_bullet, 32] @ sub_point)) subs
               else [])
        @ [Paragraph []])"

definition qa_blocks :: "nat \<times> qna_pair \<Rightarrow> docx_block list" where
  \<comment> \<open>lines 394 to 396\<close>
  "qa_blocks p =
     (case p of (i, qa) \<Rightarrow>
        [StyledParagraph (py ''Q'' @ str_of_nat i @ py '': '' @ question qa) (py ''Heading 3''),
         Paragraph (py ''Answer: '' @ answer qa),
         Paragraph []])"

definition document ::
  "(pystr \<Rightarrow> pystr) \<Rightarrow> pystr \<Rightarrow> Section list \<Rightarrow> student_info \<Rightarrow> qna_pair list
     \<Rightarrow> docx_block list" where
  \<comment> \<open>the blocks of \<open>doc\<close> when line 403 saves it\<close>
  "document upper topic secs info qna =
     [Heading (upper topic) 0,
      Paragraph (py ''Seminar Report''),
      Paragraph [],
      Paragraph (py ''Submitted by: '' @ name info),
      Paragraph (py ''Roll Number: '' @ roll info),
      Paragraph (py ''College: '' @ college info),
      Paragraph (py ''Semester: '' @ semester info),
      Paragraph (py ''Branch: '' @ branch info),
      PageBreak,
      Heading (py ''TABLE OF CONTENTS'') 1]
     @ map (\<lambda>(i, sec). Paragraph (str_of_nat i @ py ''. '' @ title sec)) (List.enumerate 1 secs)
     @ [Paragraph (str_of_nat (length secs + 1) @ py ''. Questions & Answers''),
        Paragraph (str_of_nat (length secs + 2) @ py ''. Conclusion''),
        PageBreak]
     @ concat (map section_blocks (List.enumerate 1 secs))
     @ [Heading (str_of_nat (length secs + 1) @ py ''. Questions & Answers'') 1]
     @ concat (map qa_blocks (List.enumerate 1 qna))
     @ [Heading (str_of_nat (length secs + 2) @ py ''. Conclusion'') 1,
        Paragraph (py ''This seminar on '' @ topic
          @ py '' has provided comprehensive insights into the subject matter. The discussion covered various aspects including technical details, applications, and future scope. The research and analysis presented demonstrate the significance of ''
          @ topic @ py '' in current technological advancements.'')]"

definition generate_docx ::
  "(pystr \<Rightarrow> pystr) \<Rightarrow> (docx_block list \<Rightarrow> exn option) \<Rightarrow> pystr \<Rightarrow> pystr
     \<Rightarrow> (docx_block list \<Rightarrow> pystr \<Rightarrow> fs \<Rightarrow> exn option \<times> fs)
     \<Rightarrow> pystr \<Rightarrow> Section list \<Rightarrow> student_info \<Rightarrow> qna_pair list \<Rightarrow> fs
     \<Rightarrow> (exn + pystr) \<times> fs" where
  "generate_docx upper build STATIC_PATH file_id save topic secs info qna fs0 =
     (let filename = py ''seminar_'' @ file_id @ py ''.docx'';
          file_path = os_path_join STATIC_PATH filename;
          doc = document upper topic secs info qna
      in case build doc of
           Some e \<Rightarrow>
             (Inl (Exception (py ''Failed to create enhanced DOCX: '' @ str_exn e)), fs0)
         | None \<Rightarrow>
             (case save doc file_path fs0 of
                (Some e, fs1) \<Rightarrow>
                  (Inl (Exception (py ''Failed to create enhanced DOCX: '' @ str_exn e)), fs1)
              | (None, fs1) \<Rightarrow>
                  if fs1 file_path = None
                  then (Inl (Exception (py ''Failed to create enhanced DOCX: ''
                               @ py ''DOCX file was not created at '' @ file_path)), fs1)
                  else (Inr filename, fs1)))"

section \<open>Artifact retrieval (\<open>download_file\<close>)\<close>

datatype http_exception = HTTPException nat pystr

record file_response =
  resp_path :: pystr
  resp_filename :: pystr
  resp_media_type :: pystr
  resp_headers :: "(pystr \<times> pystr) list"

definition media_type_of :: "pystr \<Rightarrow> pystr" where
  \<comment> \<open>lines 558 to 565\<close>
  "media_type_of filename =
     (if endswith filename (py ''.docx'')
      then py ''application/vnd.openxmlformats-officedocument.wordprocessingml.document''
      else if endswith filename (py ''.pptx'')
      then py ''application/vnd.openxmlformats-officedocument.presentationml.presentation''
      else if endswith filename (py ''.txt'') then py ''text/plain''
      else py ''application/octet-stream'')"

definition download_file :: "pystr \<Rightarrow> fs \<Rightarrow> pystr \<Rightarrow> http_exception + file_response" where
  "download_file STATIC_PATH store filename =
     (let file_path = os_path_join STATIC_PATH filename in
      case store file_path of
        None \<Rightarrow> Inl (HTTPException 404 (py ''File not found''))
      | Some file_size \<Rightarrow>
          if file_size = 0 then Inl (HTTPException 500 (py ''Generated file is empty''))
          else Inr \<lparr>resp_path = file_path,
                    resp_filename = filename,
                    resp_media_type = media_type_of filename,
                    resp_headers =
                      [(py ''Content-Disposition'', py ''attachment; filename='' @ filename)]\<rparr>)"

section \<open>Where a parsed title comes from\<close>

definition from_line :: "pystr list \<Rightarrow> Section \<Rightarrow> bool" where
  \<comment> \<open>the title of \<open>sec\<close> is what line 248 computes from a section-start line of \<open>ls\<close>\<close>
  "from_line ls sec =
     (\<exists>raw. raw \<in> set ls \<and> is_section_start (strip raw)
        \<and> section_title (strip raw) = Inr (title sec))"

section \<open>Facts about the string operations\<close>

lemma last_dropWhile_ne: "dropWhile P xs \<noteq> [] \<Longrightarrow> last (dropWhile P xs) = last xs"
  by (induction xs) (auto split: if_splits)

lemma dropWhile_id_hd: "xs = [] \<or> \<not> P (hd xs) \<Longrightarrow> dropWhile P xs = xs"
  by (cases xs) auto

lemma strip_trimmed:
  assumes "strip s \<noteq> []"
  shows "\<not> is_space (hd (strip s))" and "\<not> is_space (last (strip s))"
proof -
  define a where "a = dropWhile is_space s"
  define b where "b = dropWhile is_space (rev a)"
  have sb: "strip s = rev b" by (simp add: strip_def a_def b_def)
  with assms have bne: "b \<noteq> []" by simp
  then have "rev a \<noteq> []" unfolding b_def by auto
  then have ane: "a \<noteq> []" by simp
  have "last b = last (rev a)" using bne unfolding b_def by (rule last_dropWhile_ne)
  also have "\<dots> = hd a" using ane by (simp add: last_rev)
  finally have lb: "last b = hd a" .
  have "\<not> is_space (hd a)" using ane unfolding a_def by (rule hd_dropWhile)
  with lb bne show "\<not> is_space (hd (strip s))" by (simp add: sb hd_rev)
  have "\<not> is_space (hd b)" using bne unfolding b_def by (rule hd_dropWhile)
  with bne show "\<not> is_space (last (strip s))" by (simp add: sb last_rev)
qed

lemma strip_idem: "strip (strip s) = strip s"
proof (cases "strip s = []")
  case True
  have "strip [] = []" by (simp add: strip_def)
  with True show ?thesis by simp
next
  case False
  then have h: "\<not> is_space (hd (strip s))" and l: "\<not> is_space (last (strip s))"
    by (rule strip_trimmed)+
  have 1: "dropWhile is_space (strip s) = strip s"
    using h by (intro dropWhile_id_hd) simp
  have 2: "dropWhile is_space (rev (strip s)) = rev (strip s)"
    using l False by (intro dropWhile_id_hd) (simp add: hd_rev)
  show ?thesis
    unfolding strip_def[of "strip s"] 1 2 by simp
qed

lemma split1_snd_member: "sep \<in> set s \<Longrightarrow> \<exists>rest. split1_snd sep s = Inr rest"
  by (induction s) (auto simp: split1_snd_def)

lemma outline_step_total: "\<exists>st'. outline_step st raw = Inr st'"
proof -
  have "is_section_start (strip raw) \<Longrightarrow> \<exists>t. section_title (strip raw) = Inr t"
    using split1_snd_member[of colon "strip raw"]
    by (auto simp: is_section_start_def section_title_def)
  then show ?thesis
    by (auto simp: outline_step_def Let_def)
qed

lemma outline_loop_total: "\<exists>st'. outline_loop st ls = Inr st'"
proof (induction ls arbitrary: st)
  case Nil
  show ?case by simp
next
  case (Cons l ls)
  obtain st1 where "outline_step st l = Inr st1" using outline_step_total by blast
  with Cons show ?case by simp
qed

lemma parse_outline_total: "\<exists>parsed. parse_outline text = Inr parsed"
proof -
  obtain st where "outline_loop \<lparr>sections = [], current_section = None\<rparr> (split_char newline text) = Inr st"
    using outline_loop_total by blast
  then show ?thesis by (simp add: parse_outline_def)
qed

section \<open>An invariant of the outline parser\<close>

lemma split1_snd_Inr:
  "split1_snd sep s = Inr rest \<Longrightarrow> \<exists>pre. s = pre @ sep # rest \<and> sep \<notin> set pre"
proof -
  assume a: "split1_snd sep s = Inr rest"
  let ?P = "\<lambda>c. c \<noteq> sep"
  from a obtain x where d: "dropWhile ?P s = x # rest"
    by (auto simp: split1_snd_def split: list.splits)
  have "x = sep" using hd_dropWhile[of ?P s] d by auto
  moreover have "s = takeWhile ?P s @ dropWhile ?P s" by simp
  moreover have "sep \<notin> set (takeWhile ?P s)" using set_takeWhileD by fastforce
  ultimately show ?thesis using d by metis
qed

lemma outline_step_inv:
  assumes "outline_step st raw = Inr st'" and "raw \<in> set ls"
    and fresh: "\<And>r t. r \<in> set ls \<Longrightarrow> is_section_start (strip r) \<Longrightarrow>
        section_title (strip r) = Inr t \<Longrightarrow> P \<lparr>title = t, points = [], sub_points = Some []\<rparr>"
    and upd: "\<And>s p. P s \<Longrightarrow> P (s\<lparr>points := p\<rparr>)"
    and "\<And>s. s \<in> set (sections st) \<Longrightarrow> P s"
    and "\<And>s. current_section st = Some s \<Longrightarrow> P s"
  shows "(\<forall>s. s \<in> set (sections st') \<longrightarrow> P s) \<and> (\<forall>s. current_section st' = Some s \<longrightarrow> P s)"
proof -
  let ?line = "strip raw"
  consider (blank) "?line = []"
    | (start) "?line \<noteq> []" "is_section_start ?line"
    | (other) "?line \<noteq> []" "\<not> is_section_start ?line"
    by blast
  then show ?thesis
  proof cases
    case blank
    with assms(1,5,6) show ?thesis by (simp add: outline_step_def)
  next
    case start
    with assms(1) obtain t where t: "section_title ?line = Inr t"
      and st': "st' = \<lparr>sections = flush_section st,
                  current_section = Some \<lparr>title = t, points = [], sub_points = Some []\<rparr>\<rparr>"
      by (auto simp: outline_step_def Let_def split: sum.splits)
    have "P \<lparr>title = t, points = [], sub_points = Some []\<rparr>"
      using fresh[OF assms(2) start(2) t] .
    moreover have "\<And>s. s \<in> set (flush_section st) \<Longrightarrow> P s"
      using assms(5,6) by (auto simp: flush_section_def split: option.splits)
    ultimately show ?thesis by (simp add: st')
  next
    case other
    have ap: "(\<forall>s. s \<in> set (sections (add_point pt st)) \<longrightarrow> P s) \<and>
       (\<forall>s. current_section (add_point pt st) = Some s \<longrightarrow> P s)" for pt
      using assms(5,6) upd by (cases "current_section st") (auto simp: add_point_def)
    from other assms(1) have "st' = st \<or> (\<exists>pt. st' = add_point pt st)"
      by (auto simp: outline_step_def Let_def split: if_splits)
    then show ?thesis using ap assms(5,6) by auto
  qed
qed

lemma outline_loop_inv:
  assumes "outline_loop st rest = Inr st'" and "set rest \<subseteq> set ls"
    and fresh: "\<And>r t. r \<in> set ls \<Longrightarrow> is_section_start (strip r) \<Longrightarrow>
        section_title (strip r) = Inr t \<Longrightarrow> P \<lparr>title = t, points = [], sub_points = Some []\<rparr>"
    and upd: "\<And>s p. P s \<Longrightarrow> P (s\<lparr>points := p\<rparr>)"
    and "\<And>s. s \<in> set (sections st) \<Longrightarrow> P s"
    and "\<And>s. current_section st = Some s \<Longrightarrow> P s"
  shows "(\<forall>s. s \<in> set (sections st') \<longrightarrow> P s) \<and> (\<forall>s. current_section st' = Some s \<longrightarrow> P s)"
  using assms(1,2,5,6)
proof (induction rest arbitrary: st)
  case Nil
  then show ?case by simp
next
  case (Cons l rest)
  from Cons.prems(1) obtain st1 where s1: "outline_step st l = Inr st1"
    and l1: "outline_loop st1 rest = Inr st'"
    by (auto split: sum.splits)
  have "l \<in> set ls" using Cons.prems(2) by simp
  have "(\<forall>s. s \<in> set (sections st1) \<longrightarrow> P s) \<and> (\<forall>s. current_section st1 = Some s \<longrightarrow> P s)"
  proof (rule outline_step_inv[where P = P and ls = ls and st = st and raw = l])
    show "outline_step st l = Inr st1" by (rule s1)
    show "l \<in> set ls" by fact
    show "\<And>r t. r \<in> set ls \<Longrightarrow> is_section_start (strip r) \<Longrightarrow>
        section_title (strip r) = Inr t \<Longrightarrow> P \<lparr>title = t, points = [], sub_points = Some []\<rparr>"
      by (rule fresh)
    show "\<And>s p. P s \<Longrightarrow> P (s\<lparr>points := p\<rparr>)" by (rule upd)
    show "\<And>s. s \<in> set (sections st) \<Longrightarrow> P s" by (rule Cons.prems(3))
    show "\<And>s. current_section st = Some s \<Longrightarrow> P s" by (rule Cons.prems(4))
  qed
  then have a: "\<And>s. s \<in> set (sections st1) \<Longrightarrow> P s"
    and b: "\<And>s. current_section st1 = Some s \<Longrightarrow> P s" by blast+
  have "set rest \<subseteq> set ls" using Cons.prems(2) by simp
  from Cons.IH[OF l1 this a b] show ?case by simp
qed

lemma parse_outline_inv:
  assumes "parse_outline text = Inr parsed" and "sec \<in> set parsed"
    and fresh: "\<And>r t. r \<in> set (split_char newline text) \<Longrightarrow> is_section_start (strip r) \<Longrightarrow>
        section_title (strip r) = Inr t \<Longrightarrow> P \<lparr>title = t, points = [], sub_points = Some []\<rparr>"
    and upd: "\<And>s p. P s \<Longrightarrow> P (s\<lparr>points := p\<rparr>)"
  shows "P sec"
proof -
  from assms(1) obtain st where
    l: "outline_loop \<lparr>sections = [], current_section = None\<rparr> (split_char newline text) = Inr st"
    and p: "parsed = flush_section st"
    by (auto simp: parse_outline_def split: sum.splits)
  have "(\<forall>s. s \<in> set (sections st) \<longrightarrow> P s) \<and> (\<forall>s. current_section st = Some s \<longrightarrow> P s)"
  proof (rule outline_loop_inv[where P = P and ls = "split_char newline text"
        and st = "\<lparr>sections = [], current_section = None\<rparr>" and rest = "split_char newline text"])
    show "outline_loop \<lparr>sections = [], current_section = None\<rparr> (split_char newline text) = Inr st"
      by (rule l)
    show "\<And>r t. r \<in> set (split_char newline text) \<Longrightarrow> is_section_start (strip r) \<Longrightarrow>
        section_title (strip r) = Inr t \<Longrightarrow> P \<lparr>title = t, points = [], sub_points = Some []\<rparr>"
      by (rule fresh)
    show "\<And>s p. P s \<Longrightarrow> P (s\<lparr>points := p\<rparr>)" by (rule upd)
  qed simp_all
  with assms(2) p show ?thesis
    by (auto simp: flush_section_def split: option.splits)
qed

lemma parse_outline_titles:
  assumes "parse_outline text = Inr parsed" and "sec \<in> set parsed"
  shows "from_line (split_char newline text) sec"
proof (rule parse_outline_inv[where P = "from_line (split_char newline text)", OF assms])
  show "\<And>r t. r \<in> set (split_char newline text) \<Longrightarrow> is_section_start (strip r) \<Longrightarrow>
      section_title (strip r) = Inr t \<Longrightarrow>
      from_line (split_char newline text) \<lparr>title = t, points = [], sub_points = Some []\<rparr>"
    by (auto simp: from_line_def)
  show "\<And>s p. from_line (split_char newline text) s \<Longrightarrow>
      from_line (split_char newline text) (s\<lparr>points := p\<rparr>)"
    by (simp add: from_line_def)
qed


section \<open>Evaluation on concrete inputs\<close>

lemmas ev =
  py_def newline_def colon_def bullet_def white_bullet_def is_space_def strip_def
  lstrip_chars_def startswith_def split1_snd_def Let_def
  parse_outline_def outline_step_def is_section_start_def section_title_def
  flush_section_def add_point_def
  parse_qna_def qna_step_def is_question_line_def question_text_def is_answer_line_def
  answer_text_def flush_pair_def content_text_def

section \<open>Facts shared by the claims\<close>

lemma generate_detailed_content_eq:
  "parse_outline (gpt_generate provider (structure_prompt topic) 1500) = Inr parsed \<Longrightarrow>
   generate_detailed_content provider topic =
     (if length parsed < 4 then fallback_sections topic else parsed)"
  by (simp add: generate_detailed_content_def detailed_content_try_def)







lemma not_infix: "c \<in> set t \<Longrightarrow> c \<notin> set p \<Longrightarrow> \<not> (\<exists>pre post. p = pre @ t @ post)"
  by auto

lemma mentions: "\<exists>pre post. a @ t @ b = pre @ t @ post"
  by blast

lemma mentions_first: "\<exists>pre post. t @ b = pre @ t @ post"
  using mentions[of "[]" t b] by simp

lemma qna_step_no_answer:
  "current_a st = [] \<Longrightarrow> \<not> is_answer_line (strip l) \<Longrightarrow>
   qna_pairs (qna_step st l) = qna_pairs st \<and> current_a (qna_step st l) = []"
  by (simp add: qna_step_def flush_pair_def Let_def)

lemma qna_loop_no_answer:
  "current_a st = [] \<Longrightarrow> list_all (\<lambda>l. \<not> is_answer_line (strip l)) ls \<Longrightarrow>
   qna_pairs (foldl qna_step st ls) = qna_pairs st \<and> current_a (foldl qna_step st ls) = []"
proof (induction ls arbitrary: st)
  case Nil
  then show ?case by simp
next
  case (Cons l ls)
  from Cons.prems have a: "\<not> is_answer_line (strip l)"
    and b: "list_all (\<lambda>l. \<not> is_answer_line (strip l)) ls" by simp_all
  from qna_step_no_answer[OF Cons.prems(1) a]
  have s: "qna_pairs (qna_step st l) = qna_pairs st" "current_a (qna_step st l) = []" by simp_all
  from Cons.IH[OF s(2) b] s(1) show ?case by simp
qed

lemma qna_question_step:
  "is_question_line (strip q) \<Longrightarrow>
   qna_step st q = \<lparr>qna_pairs = flush_pair st, current_q = question_text (strip q), current_a = []\<rparr>"
  by (simp add: qna_step_def Let_def)

lemma flush_pair_empty_answer: "current_a st = [] \<Longrightarrow> flush_pair st = qna_pairs st"
  by (simp add: flush_pair_def)

lemma pptx_returns:
  "generate_enhanced_pptx upper build STATIC_PATH file_id save topic secs info fs0 =
     (Inr filename, fs1) \<longleftrightarrow>
   filename = py ''seminar_'' @ file_id @ py ''.pptx'' \<and>
   build (presentation upper topic secs info) = None \<and>
   save (presentation upper topic secs info)
     (os_path_join STATIC_PATH (py ''seminar_'' @ file_id @ py ''.pptx'')) fs0 = (None, fs1) \<and>
   fs1 (os_path_join STATIC_PATH (py ''seminar_'' @ file_id @ py ''.pptx'')) \<noteq> None"
  by (auto simp: generate_enhanced_pptx_def Let_def split: prod.splits option.splits if_splits)

lemma pptx_missing:
  "build (presentation upper topic secs info) = None \<Longrightarrow>
   save (presentation upper topic secs info)
     (os_path_join STATIC_PATH (py ''seminar_'' @ file_id @ py ''.pptx'')) fs0 = (None, fs2) \<Longrightarrow>
   fs2 (os_path_join STATIC_PATH (py ''seminar_'' @ file_id @ py ''.pptx'')) = None \<Longrightarrow>
   \<exists>msg. generate_enhanced_pptx upper build STATIC_PATH file_id save topic secs info fs0 =
     (Inl (Exception msg), fs2)"
  by (simp add: generate_enhanced_pptx_def Let_def)

lemma docx_returns:
  "generate_docx upper build STATIC_PATH file_id save topic secs info qna fs0 =
     (Inr filename, fs1) \<longleftrightarrow>
   filename = py ''seminar_'' @ file_id @ py ''.docx'' \<and>
   build (document upper topic secs info qna) = None \<and>
   save (document upper topic secs info qna)
     (os_path_join STATIC_PATH (py ''seminar_'' @ file_id @ py ''.docx'')) fs0 = (None, fs1) \<and>
   fs1 (os_path_join STATIC_PATH (py ''seminar_'' @ file_id @ py ''.docx'')) \<noteq> None"
  by (auto simp: generate_docx_def Let_def split: prod.splits option.splits if_splits)

lemma docx_missing:
  "build (document upper topic secs info qna) = None \<Longrightarrow>
   save (document upper topic secs info qna)
     (os_path_join STATIC_PATH (py ''seminar_'' @ file_id @ py ''.docx'')) fs0 = (None, fs2) \<Longrightarrow>
   fs2 (os_path_join STATIC_PATH (py ''seminar_'' @ file_id @ py ''.docx'')) = None \<Longrightarrow>
   \<exists>msg. generate_docx upper build STATIC_PATH file_id save topic secs info qna fs0 =
     (Inl (Exception msg), fs2)"
  by (simp add: generate_docx_def Let_def)

lemma presentation_length: "length (presentation upper topic secs info) = length secs + 3"
  by (simp add: presentation_def)

section \<open>The claims\<close>

subsection \<open>C1: the Key Details block of a content slide\<close>

text \<open>
  Claim C1 says that a content slide shows its points as bulleted lines and a Key Details
  block only when the section's \<open>sub_points\<close> list is non-empty. The slide renderer tests
  that the key \<open>'sub_points'\<close> is present, not that the list has an element, so a section
  with the key and an empty list gets the header \<open>Key Details:\<close> with nothing under it.
  Every section the outline parser builds has that form: the second equation renders a parsed
  outline of four sections. The report renderer tests both the key and the list, so for the
  same section it writes no sub-point block (third equation).
\<close>

theorem key_details_for_empty_sub_points:
  "content_text \<lparr>title = py ''A'', points = [py ''p''], sub_points = Some []\<rparr> =
     [bullet, 32] @ py ''p'' @ [newline, newline] @ py ''Key Details:'' @ [newline] \<and>
   placeholder1 (presentation upper (py ''AI'')
       (generate_detailed_content
          (\<lambda>prompt max_tokens. Inr (py ''Section 1: A\<newline>- p\<newline>Section 2: B\<newline>Section 3: C\<newline>Section 4: D''))
          (py ''AI''))
       info ! 2) =
     [bullet, 32] @ py ''p'' @ [newline, newline] @ py ''Key Details:'' @ [newline] \<and>
   section_blocks (1, \<lparr>title = py ''A'', points = [py ''p''], sub_points = Some []\<rparr>) =
     [Heading (py ''1. A'') 1, Paragraph ([bullet, 32] @ py ''p''), Paragraph []]"
proof -
  have 1: "content_text \<lparr>title = py ''A'', points = [py ''p''], sub_points = Some []\<rparr> =
     [bullet, 32] @ py ''p'' @ [newline, newline] @ py ''Key Details:'' @ [newline]"
    by (simp add: content_text_def py_def)
  have "parse_outline (gpt_generate (\<lambda>prompt max_tokens. Inr (py ''Section 1: A\<newline>- p\<newline>Section 2: B\<newline>Section 3: C\<newline>Section 4: D''))
      (structure_prompt (py ''AI'')) 1500) =
     Inr [\<lparr>title = py ''A'', points = [py ''p''], sub_points = Some []\<rparr>,
      \<lparr>title = py ''B'', points = [], sub_points = Some []\<rparr>,
      \<lparr>title = py ''C'', points = [], sub_points = Some []\<rparr>,
      \<lparr>title = py ''D'', points = [], sub_points = Some []\<rparr>]"
    by (simp add: gpt_generate_def ev)
  from generate_detailed_content_eq[OF this]
  have g: "generate_detailed_content (\<lambda>prompt max_tokens. Inr (py ''Section 1: A\<newline>- p\<newline>Section 2: B\<newline>Section 3: C\<newline>Section 4: D''))
      (py ''AI'') =
     [\<lparr>title = py ''A'', points = [py ''p''], sub_points = Some []\<rparr>,
      \<lparr>title = py ''B'', points = [], sub_points = Some []\<rparr>,
      \<lparr>title = py ''C'', points = [], sub_points = Some []\<rparr>,
      \<lparr>title = py ''D'', points = [], sub_points = Some []\<rparr>]"
    by simp
  have 2: "placeholder1 (presentation upper (py ''AI'')
       (generate_detailed_content
          (\<lambda>prompt max_tokens. Inr (py ''Section 1: A\<newline>- p\<newline>Section 2: B\<newline>Section 3: C\<newline>Section 4: D''))
          (py ''AI''))
       info ! 2) =
     [bullet, 32] @ py ''p'' @ [newline, newline] @ py ''Key Details:'' @ [newline]"
    by (simp add: g presentation_def content_slide_def 1)
  have 3: "section_blocks (1, \<lparr>title = py ''A'', points = [py ''p''], sub_points = Some []\<rparr>) =
     [Heading (py ''1. A'') 1, Paragraph ([bullet, 32] @ py ''p''), Paragraph []]"
    by (simp add: section_blocks_def py_def)
  from 1 2 3 show ?thesis by blast
qed

subsection \<open>C2: verification of the persisted artifact\<close>

text \<open>
  Claim C2, as amended. After saving, each renderer checks that something exists at the
  artifact's path and nothing more. A render returns a file name exactly when the document was
  built, the save call returned normally and the path exists in the store it left; the name is
  then the generated \<open>seminar_<id>.pptx\<close> or \<open>seminar_<id>.docx\<close>. When the save call
  returns normally and the path is absent, the renderer raises an exception instead of
  returning a name. When it returns normally and a file of any size \<open>n\<close> is at the path, zero
  included, the renderer returns the name: the length of the file decides nothing here, and
  \<open>download_file\<close> is where an empty file is refused.
\<close>

theorem render_verifies_presence:
  "(generate_enhanced_pptx upper build_pptx STATIC_PATH file_id save_pptx topic secs info fs0 =
      (Inr filename, fs1) \<longleftrightarrow>
      filename = py ''seminar_'' @ file_id @ py ''.pptx'' \<and>
      build_pptx (presentation upper topic secs info) = None \<and>
      save_pptx (presentation upper topic secs info)
        (os_path_join STATIC_PATH (py ''seminar_'' @ file_id @ py ''.pptx'')) fs0 = (None, fs1) \<and>
      fs1 (os_path_join STATIC_PATH (py ''seminar_'' @ file_id @ py ''.pptx'')) \<noteq> None) \<and>
   (build_pptx (presentation upper topic secs info) = None \<and>
    save_pptx (presentation upper topic secs info)
      (os_path_join STATIC_PATH (py ''seminar_'' @ file_id @ py ''.pptx'')) fs0 = (None, fs2) \<and>
    fs2 (os_path_join STATIC_PATH (py ''seminar_'' @ file_id @ py ''.pptx'')) = None \<longrightarrow>
      (\<exists>msg. generate_enhanced_pptx upper build_pptx STATIC_PATH file_id save_pptx topic secs info fs0 =
         (Inl (Exception msg), fs2))) \<and>
   (build_pptx (presentation upper topic secs info) = None \<and>
    save_pptx (presentation upper topic secs info)
      (os_path_join STATIC_PATH (py ''seminar_'' @ file_id @ py ''.pptx'')) fs0 = (None, fs3) \<and>
    fs3 (os_path_join STATIC_PATH (py ''seminar_'' @ file_id @ py ''.pptx'')) = Some n \<longrightarrow>
      generate_enhanced_pptx upper build_pptx STATIC_PATH file_id save_pptx topic secs info fs0 =
        (Inr (py ''seminar_'' @ file_id @ py ''.pptx''), fs3)) \<and>
   (generate_docx upper build_docx STATIC_PATH file_id save_docx topic secs info qna fs0 =
      (Inr docname, fs4) \<longleftrightarrow>
      docname = py ''seminar_'' @ file_id @ py ''.docx'' \<and>
      build_docx (document upper topic secs info qna) = None \<and>
      save_docx (document upper topic secs info qna)
        (os_path_join STATIC_PATH (py ''seminar_'' @ file_id @ py ''.docx'')) fs0 = (None, fs4) \<and>
      fs4 (os_path_join STATIC_PATH (py ''seminar_'' @ file_id @ py ''.docx'')) \<noteq> None) \<and>
   (build_docx (document upper topic secs info qna) = None \<and>
    save_docx (document upper topic secs info qna)
      (os_path_join STATIC_PATH (py ''seminar_'' @ file_id @ py ''.docx'')) fs0 = (None, fs5) \<and>
    fs5 (os_path_join STATIC_PATH (py ''seminar_'' @ file_id @ py ''.docx'')) = None \<longrightarrow>
      (\<exists>msg. generate_docx upper build_docx STATIC_PATH file_id save_docx topic secs info qna fs0 =
         (Inl (Exception msg), fs5))) \<and>
   (build_docx (document upper topic secs info qna) = None \<and>
    save_docx (document upper topic secs info qna)
      (os_path_join STATIC_PATH (py ''seminar_'' @ file_id @ py ''.docx'')) fs0 = (None, fs6) \<and>
    fs6 (os_path_join STATIC_PATH (py ''seminar_'' @ file_id @ py ''.docx'')) = Some m \<longrightarrow>
      generate_docx upper build_docx STATIC_PATH file_id save_docx topic secs info qna fs0 =
        (Inr (py ''seminar_'' @ file_id @ py ''.docx''), fs6))"
proof -
  have p: "(generate_enhanced_pptx upper build_pptx STATIC_PATH file_id save_pptx topic secs info fs0 =
      (Inr filename, fs1) \<longleftrightarrow>
      filename = py ''seminar_'' @ file_id @ py ''.pptx'' \<and>
      build_pptx (presentation upper topic secs info) = None \<and>
      save_pptx (presentation upper topic secs info)
        (os_path_join STATIC_PATH (py ''seminar_'' @ file_id @ py ''.pptx'')) fs0 = (None, fs1) \<and>
      fs1 (os_path_join STATIC_PATH (py ''seminar_'' @ file_id @ py ''.pptx'')) \<noteq> None) \<and>
   (build_pptx (presentation upper topic secs info) = None \<and>
    save_pptx (presentation upper topic secs info)
      (os_path_join STATIC_PATH (py ''seminar_'' @ file_id @ py ''.pptx'')) fs0 = (None, fs2) \<and>
    fs2 (os_path_join STATIC_PATH (py ''seminar_'' @ file_id @ py ''.pptx'')) = None \<longrightarrow>
      (\<exists>msg. generate_enhanced_pptx upper build_pptx STATIC_PATH file_id save_pptx topic secs info fs0 =
         (Inl (Exception msg), fs2))) \<and>
   (build_pptx (presentation upper topic secs info) = None \<and>
    save_pptx (presentation upper topic secs info)
      (os_path_join STATIC_PATH (py ''seminar_'' @ file_id @ py ''.pptx'')) fs0 = (None, fs3) \<and>
    fs3 (os_path_join STATIC_PATH (py ''seminar_'' @ file_id @ py ''.pptx'')) = Some n \<longrightarrow>
      generate_enhanced_pptx upper build_pptx STATIC_PATH file_id save_pptx topic secs info fs0 =
        (Inr (py ''seminar_'' @ file_id @ py ''.pptx''), fs3))"
    using pptx_returns[of upper build_pptx STATIC_PATH file_id save_pptx topic secs info fs0]
      pptx_missing[of build_pptx upper topic secs info save_pptx STATIC_PATH file_id fs0 fs2]
    by auto
  have d: "(generate_docx upper build_docx STATIC_PATH file_id save_docx topic secs info qna fs0 =
      (Inr docname, fs4) \<longleftrightarrow>
      docname = py ''seminar_'' @ file_id @ py ''.docx'' \<and>
      build_docx (document upper topic secs info qna) = None \<and>
      save_docx (document upper topic secs info qna)
        (os_path_join STATIC_PATH (py ''seminar_'' @ file_id @ py ''.docx'')) fs0 = (None, fs4) \<and>
      fs4 (os_path_join STATIC_PATH (py ''seminar_'' @ file_id @ py ''.docx'')) \<noteq> None) \<and>
   (build_docx (document upper topic secs info qna) = None \<and>
    save_docx (document upper topic secs info qna)
      (os_path_join STATIC_PATH (py ''seminar_'' @ file_id @ py ''.docx'')) fs0 = (None, fs5) \<and>
    fs5 (os_path_join STATIC_PATH (py ''seminar_'' @ file_id @ py ''.docx'')) = None \<longrightarrow>
      (\<exists>msg. generate_docx upper build_docx STATIC_PATH file_id save_docx topic secs info qna fs0 =
         (Inl (Exception msg), fs5))) \<and>
   (build_docx (document upper topic secs info qna) = None \<and>
    save_docx (document upper topic secs info qna)
      (os_path_join STATIC_PATH (py ''seminar_'' @ file_id @ py ''.docx'')) fs0 = (None, fs6) \<and>
    fs6 (os_path_join STATIC_PATH (py ''seminar_'' @ file_id @ py ''.docx'')) = Some m \<longrightarrow>
      generate_docx upper build_docx STATIC_PATH file_id save_docx topic secs info qna fs0 =
        (Inr (py ''seminar_'' @ file_id @ py ''.docx''), fs6))"
    using docx_returns[of upper build_docx STATIC_PATH file_id save_docx topic secs info qna fs0]
      docx_missing[of build_docx upper topic secs info qna save_docx STATIC_PATH file_id fs0 fs5]
    by auto
  from p d show ?thesis by (elim conjE) (intro conjI; assumption)
qed

text \<open>
  The theorem at a save that writes 2048 bytes, and at a save that returns normally and
  writes nothing.
\<close>

theorem render_verifies_presence_witness:
  "generate_enhanced_pptx ascii_upper (\<lambda>prs. None) (py ''/srv/generated_files'') (py ''id1'')
      (\<lambda>prs path store. (None, store(path \<mapsto> 2048)))
      (py ''AI'') [] \<lparr>name = py ''N'', roll = py ''1'', college = py ''C'',
             semester = py ''5'', branch = py ''CS''\<rparr> (\<lambda>p. None) =
     (Inr (py ''seminar_'' @ py ''id1'' @ py ''.pptx''),
      (\<lambda>p. None)(os_path_join (py ''/srv/generated_files'') (py ''seminar_'' @ py ''id1'' @ py ''.pptx'') \<mapsto> 2048)) \<and>
   (\<exists>msg. generate_enhanced_pptx ascii_upper (\<lambda>prs. None) (py ''/srv/generated_files'') (py ''id1'')
          (\<lambda>prs path store. (None, store))
          (py ''AI'') [] \<lparr>name = py ''N'', roll = py ''1'', college = py ''C'',
             semester = py ''5'', branch = py ''CS''\<rparr> (\<lambda>p. None) =
        (Inl (Exception msg), (\<lambda>p. None))) \<and>
   generate_docx ascii_upper (\<lambda>doc. None) (py ''/srv/generated_files'') (py ''id1'')
      (\<lambda>doc path store. (None, store(path \<mapsto> 2048)))
      (py ''AI'') [] \<lparr>name = py ''N'', roll = py ''1'', college = py ''C'',
             semester = py ''5'', branch = py ''CS''\<rparr> [] (\<lambda>p. None) =
     (Inr (py ''seminar_'' @ py ''id1'' @ py ''.docx''),
      (\<lambda>p. None)(os_path_join (py ''/srv/generated_files'') (py ''seminar_'' @ py ''id1'' @ py ''.docx'') \<mapsto> 2048)) \<and>
   (\<exists>msg. generate_docx ascii_upper (\<lambda>doc. None) (py ''/srv/generated_files'') (py ''id1'')
          (\<lambda>doc path store. (None, store))
          (py ''AI'') [] \<lparr>name = py ''N'', roll = py ''1'', college = py ''C'',
             semester = py ''5'', branch = py ''CS''\<rparr> [] (\<lambda>p. None) =
        (Inl (Exception msg), (\<lambda>p. None)))"
proof -
  let ?info = "\<lparr>name = py ''N'', roll = py ''1'', college = py ''C'',
             semester = py ''5'', branch = py ''CS''\<rparr>"
  let ?ok = "\<lambda>d::slide list. \<lambda>(path::pystr) (store::fs). (None::exn option, store(path \<mapsto> 2048))"
  let ?lost = "\<lambda>d::slide list. \<lambda>(path::pystr) (store::fs). (None::exn option, store)"
  let ?okd = "\<lambda>d::docx_block list. \<lambda>(path::pystr) (store::fs). (None::exn option, store(path \<mapsto> 2048))"
  let ?lostd = "\<lambda>d::docx_block list. \<lambda>(path::pystr) (store::fs). (None::exn option, store)"
  let ?p1 = "os_path_join (py ''/srv/generated_files'') (py ''seminar_'' @ py ''id1'' @ py ''.pptx'')"
  let ?p2 = "os_path_join (py ''/srv/generated_files'') (py ''seminar_'' @ py ''id1'' @ py ''.docx'')"
  note t = render_verifies_presence[where upper = ascii_upper and STATIC_PATH = "py ''/srv/generated_files''"
      and file_id = "py ''id1''" and topic = "py ''AI''" and secs = "[]" and info = ?info
      and qna = "[]" and ?fs0.0 = "\<lambda>p. None" and build_pptx = "\<lambda>prs. None"
      and build_docx = "\<lambda>doc. None"]
  from t[where save_pptx = ?ok and ?fs3.0 = "(\<lambda>p. None)(?p1 \<mapsto> 2048)" and n = 2048]
  have a: "generate_enhanced_pptx ascii_upper (\<lambda>prs. None) (py ''/srv/generated_files'') (py ''id1'') ?ok
      (py ''AI'') [] ?info (\<lambda>p. None) =
     (Inr (py ''seminar_'' @ py ''id1'' @ py ''.pptx''), (\<lambda>p. None)(?p1 \<mapsto> 2048))"
    by simp
  from t[where save_pptx = ?lost and ?fs2.0 = "\<lambda>p. None"]
  have b: "\<exists>msg. generate_enhanced_pptx ascii_upper (\<lambda>prs. None) (py ''/srv/generated_files'') (py ''id1'') ?lost
      (py ''AI'') [] ?info (\<lambda>p. None) = (Inl (Exception msg), (\<lambda>p. None))"
    by simp
  from t[where save_docx = ?okd and ?fs6.0 = "(\<lambda>p. None)(?p2 \<mapsto> 2048)" and m = 2048]
  have c: "generate_docx ascii_upper (\<lambda>doc. None) (py ''/srv/generated_files'') (py ''id1'') ?okd
      (py ''AI'') [] ?info [] (\<lambda>p. None) =
     (Inr (py ''seminar_'' @ py ''id1'' @ py ''.docx''), (\<lambda>p. None)(?p2 \<mapsto> 2048))"
    by simp
  from t[where save_docx = ?lostd and ?fs5.0 = "\<lambda>p. None"]
  have d: "\<exists>msg. generate_docx ascii_upper (\<lambda>doc. None) (py ''/srv/generated_files'') (py ''id1'') ?lostd
      (py ''AI'') [] ?info [] (\<lambda>p. None) = (Inl (Exception msg), (\<lambda>p. None))"
    by simp
  from a b c d show ?thesis by blast
qed

text \<open>
  The claim as stated fails: when the save leaves a file of length zero, both renderers
  return the file name normally.
\<close>

theorem render_empty_artifact_counterexample:
  "fst (generate_enhanced_pptx ascii_upper (\<lambda>prs. None) (py ''/srv/generated_files'') (py ''id1'')
          (\<lambda>prs path store. (None, store(path \<mapsto> 0)))
          (py ''AI'') [] \<lparr>name = py ''N'', roll = py ''1'', college = py ''C'',
             semester = py ''5'', branch = py ''CS''\<rparr> (\<lambda>p. None)) =
     Inr (py ''seminar_id1.pptx'') \<and>
   snd (generate_enhanced_pptx ascii_upper (\<lambda>prs. None) (py ''/srv/generated_files'') (py ''id1'')
          (\<lambda>prs path store. (None, store(path \<mapsto> 0)))
          (py ''AI'') [] \<lparr>name = py ''N'', roll = py ''1'', college = py ''C'',
             semester = py ''5'', branch = py ''CS''\<rparr> (\<lambda>p. None))
       (py ''/srv/generated_files/seminar_id1.pptx'') = Some 0 \<and>
   fst (generate_docx ascii_upper (\<lambda>doc. None) (py ''/srv/generated_files'') (py ''id2'')
          (\<lambda>doc path store. (None, store(path \<mapsto> 0)))
          (py ''AI'') [] \<lparr>name = py ''N'', roll = py ''1'', college = py ''C'',
             semester = py ''5'', branch = py ''CS''\<rparr> [] (\<lambda>p. None)) =
     Inr (py ''seminar_id2.docx'') \<and>
   snd (generate_docx ascii_upper (\<lambda>doc. None) (py ''/srv/generated_files'') (py ''id2'')
          (\<lambda>doc path store. (None, store(path \<mapsto> 0)))
          (py ''AI'') [] \<lparr>name = py ''N'', roll = py ''1'', college = py ''C'',
             semester = py ''5'', branch = py ''CS''\<rparr> [] (\<lambda>p. None))
       (py ''/srv/generated_files/seminar_id2.docx'') = Some 0"
proof -
  have j1: "os_path_join (py ''/srv/generated_files'') (py ''seminar_id1.pptx'') =
      py ''/srv/generated_files/seminar_id1.pptx''"
    by (simp add: os_path_join_def startswith_def endswith_def py_def)
  have j2: "os_path_join (py ''/srv/generated_files'') (py ''seminar_id2.docx'') =
      py ''/srv/generated_files/seminar_id2.docx''"
    by (simp add: os_path_join_def startswith_def endswith_def py_def)
  have n1: "py ''seminar_'' @ py ''id1'' @ py ''.pptx'' = py ''seminar_id1.pptx''"
    by (simp add: py_def)
  have n2: "py ''seminar_'' @ py ''id2'' @ py ''.docx'' = py ''seminar_id2.docx''"
    by (simp add: py_def)
  show ?thesis
    by (simp add: generate_enhanced_pptx_def generate_docx_def Let_def j1 j2 n1 n2)
qed

subsection \<open>C3: the section threshold\<close>

text \<open>
  Claim C3, as amended. For every text the outline parser returns a list of sections (it
  never raises). When that list has fewer than 4 sections, the outline stage returns the fixed
  template \<open>fallback_sections topic\<close> and nothing of the parsed list; when it has 4 or more,
  it returns the parsed list unchanged. This holds for the stage after the generation call on
  every text, and for \<open>generate_detailed_content\<close> on the text \<open>gpt_generate\<close> returns. The
  template has the six sections Introduction and Overview, Literature Review and Background,
  Core Concepts and Methodology, Applications and Case Studies, Challenges and Limitations,
  Future Scope and Recommendations, each with exactly four points. Only the first point of the
  first section, \<open>Definition and scope of <topic>\<close>, holds the topic; the other 23 points
  are the fixed texts listed.
\<close>

theorem section_fallback_threshold:
  "(\<exists>parsed. parse_outline text = Inr parsed \<and>
      (length parsed < 4 \<longrightarrow>
         detailed_content_try topic text = Inr (fallback_sections topic)) \<and>
      (4 \<le> length parsed \<longrightarrow> detailed_content_try topic text = Inr parsed)) \<and>
   (\<exists>parsed. parse_outline (gpt_generate provider (structure_prompt topic) 1500) = Inr parsed \<and>
      (length parsed < 4 \<longrightarrow>
         generate_detailed_content provider topic = fallback_sections topic) \<and>
      (4 \<le> length parsed \<longrightarrow> generate_detailed_content provider topic = parsed)) \<and>
   map title (fallback_sections topic) =
     [py ''Introduction and Overview'', py ''Literature Review and Background'',
      py ''Core Concepts and Methodology'', py ''Applications and Case Studies'',
      py ''Challenges and Limitations'', py ''Future Scope and Recommendations''] \<and>
   map (\<lambda>sec. length (points sec)) (fallback_sections topic) = [4, 4, 4, 4, 4, 4] \<and>
   hd (points (hd (fallback_sections topic))) = py ''Definition and scope of '' @ topic \<and>
   tl (points (hd (fallback_sections topic))) =
     [py ''Importance in current technological landscape'',
      py ''Objectives of this presentation'', py ''Expected outcomes and benefits''] \<and>
   map points (tl (fallback_sections topic)) =
     [[py ''Historical development and evolution'', py ''Key research contributions'',
       py ''Current state of technology'', py ''Gaps in existing knowledge''],
      [py ''Fundamental principles and theories'', py ''Technical architecture and design'',
       py ''Implementation methodologies'', py ''Performance metrics and evaluation''],
      [py ''Industry applications and use cases'', py ''Real-world implementation examples'',
       py ''Success stories and best practices'', py ''Comparative analysis with alternatives''],
      [py ''Technical challenges and constraints'', py ''Implementation barriers'',
       py ''Cost and resource considerations'', py ''Scalability and performance issues''],
      [py ''Emerging trends and opportunities'', py ''Research directions and possibilities'',
       py ''Recommendations for implementation'', py ''Expected future developments'']]"
proof -
  obtain parsed where p: "parse_outline text = Inr parsed"
    using parse_outline_total by blast
  then have "detailed_content_try topic text =
      Inr (if length parsed < 4 then fallback_sections topic else parsed)"
    by (simp add: detailed_content_try_def)
  with p have 1: "\<exists>parsed. parse_outline text = Inr parsed \<and>
      (length parsed < 4 \<longrightarrow>
         detailed_content_try topic text = Inr (fallback_sections topic)) \<and>
      (4 \<le> length parsed \<longrightarrow> detailed_content_try topic text = Inr parsed)"
    by auto
  obtain parsed' where
    p': "parse_outline (gpt_generate provider (structure_prompt topic) 1500) = Inr parsed'"
    using parse_outline_total by blast
  from generate_detailed_content_eq[OF p'] p'
  have 2: "\<exists>parsed. parse_outline (gpt_generate provider (structure_prompt topic) 1500) = Inr parsed \<and>
      (length parsed < 4 \<longrightarrow>
         generate_detailed_content provider topic = fallback_sections topic) \<and>
      (4 \<le> length parsed \<longrightarrow> generate_detailed_content provider topic = parsed)"
    by auto
  have 3: "map title (fallback_sections topic) =
     [py ''Introduction and Overview'', py ''Literature Review and Background'',
      py ''Core Concepts and Methodology'', py ''Applications and Case Studies'',
      py ''Challenges and Limitations'', py ''Future Scope and Recommendations'']"
    by (simp add: fallback_sections_def)
  have 4: "map (\<lambda>sec. length (points sec)) (fallback_sections topic) = [4, 4, 4, 4, 4, 4]"
    by (simp add: fallback_sections_def)
  have 5: "hd (points (hd (fallback_sections topic))) = py ''Definition and scope of '' @ topic"
    by (simp add: fallback_sections_def)
  have 6: "tl (points (hd (fallback_sections topic))) =
     [py ''Importance in current technological landscape'',
      py ''Objectives of this presentation'', py ''Expected outcomes and benefits'']"
    by (simp add: fallback_sections_def)
  have 7: "map points (tl (fallback_sections topic)) =
     [[py ''Historical development and evolution'', py ''Key research contributions'',
       py ''Current state of technology'', py ''Gaps in existing knowledge''],
      [py ''Fundamental principles and theories'', py ''Technical architecture and design'',
       py ''Implementation methodologies'', py ''Performance metrics and evaluation''],
      [py ''Industry applications and use cases'', py ''Real-world implementation examples'',
       py ''Success stories and best practices'', py ''Comparative analysis with alternatives''],
      [py ''Technical challenges and constraints'', py ''Implementation barriers'',
       py ''Cost and resource considerations'', py ''Scalability and performance issues''],
      [py ''Emerging trends and opportunities'', py ''Research directions and possibilities'',
       py ''Recommendations for implementation'', py ''Expected future developments'']]"
    by (simp add: fallback_sections_def)
  from 1 2 3 4 5 6 7 show ?thesis by (intro conjI)
qed

text \<open>
  The theorem at an outline of three sections and at an outline of four.
\<close>

theorem section_fallback_threshold_witness:
  "generate_detailed_content (\<lambda>prompt max_tokens. Inr (py ''Section 1: A\<newline>- p\<newline>Section 2: B\<newline>Section 3: C''))
     (py ''AI'') = fallback_sections (py ''AI'') \<and>
   generate_detailed_content (\<lambda>prompt max_tokens. Inr (py ''Section 1: A\<newline>- p\<newline>Section 2: B\<newline>Section 3: C\<newline>Section 4: D''))
     (py ''AI'') =
     [\<lparr>title = py ''A'', points = [py ''p''], sub_points = Some []\<rparr>,
      \<lparr>title = py ''B'', points = [], sub_points = Some []\<rparr>,
      \<lparr>title = py ''C'', points = [], sub_points = Some []\<rparr>,
      \<lparr>title = py ''D'', points = [], sub_points = Some []\<rparr>]"
proof -
  have p3: "parse_outline (gpt_generate (\<lambda>prompt max_tokens. Inr (py ''Section 1: A\<newline>- p\<newline>Section 2: B\<newline>Section 3: C''))
      (structure_prompt (py ''AI'')) 1500) =
     Inr [\<lparr>title = py ''A'', points = [py ''p''], sub_points = Some []\<rparr>,
      \<lparr>title = py ''B'', points = [], sub_points = Some []\<rparr>,
      \<lparr>title = py ''C'', points = [], sub_points = Some []\<rparr>]"
    by (simp add: gpt_generate_def ev)
  have p4: "parse_outline (gpt_generate (\<lambda>prompt max_tokens. Inr (py ''Section 1: A\<newline>- p\<newline>Section 2: B\<newline>Section 3: C\<newline>Section 4: D''))
      (structure_prompt (py ''AI'')) 1500) =
     Inr [\<lparr>title = py ''A'', points = [py ''p''], sub_points = Some []\<rparr>,
      \<lparr>title = py ''B'', points = [], sub_points = Some []\<rparr>,
      \<lparr>title = py ''C'', points = [], sub_points = Some []\<rparr>,
      \<lparr>title = py ''D'', points = [], sub_points = Some []\<rparr>]"
    by (simp add: gpt_generate_def ev)
  from section_fallback_threshold[where provider = "(\<lambda>prompt max_tokens. Inr (py ''Section 1: A\<newline>- p\<newline>Section 2: B\<newline>Section 3: C''))"
      and topic = "py ''AI''"] p3
  have a: "generate_detailed_content (\<lambda>prompt max_tokens. Inr (py ''Section 1: A\<newline>- p\<newline>Section 2: B\<newline>Section 3: C''))
     (py ''AI'') = fallback_sections (py ''AI'')"
    by auto
  from section_fallback_threshold[where provider = "(\<lambda>prompt max_tokens. Inr (py ''Section 1: A\<newline>- p\<newline>Section 2: B\<newline>Section 3: C\<newline>Section 4: D''))"
      and topic = "py ''AI''"] p4
  have b: "generate_detailed_content (\<lambda>prompt max_tokens. Inr (py ''Section 1: A\<newline>- p\<newline>Section 2: B\<newline>Section 3: C\<newline>Section 4: D''))
     (py ''AI'') =
     [\<lparr>title = py ''A'', points = [py ''p''], sub_points = Some []\<rparr>,
      \<lparr>title = py ''B'', points = [], sub_points = Some []\<rparr>,
      \<lparr>title = py ''C'', points = [], sub_points = Some []\<rparr>,
      \<lparr>title = py ''D'', points = [], sub_points = Some []\<rparr>]"
    by auto
  from a b show ?thesis by (rule conjI)
qed

text \<open>
  The claim as stated fails: for the topic \<open>AI\<close> and an empty generated text the
  template is returned, and the four points of its second section are fixed texts that do not
  contain the topic.
\<close>

theorem template_points_fixed_counterexample:
  "generate_detailed_content (\<lambda>prompt max_tokens. Inr []) (py ''AI'') =
     fallback_sections (py ''AI'') \<and>
   points (generate_detailed_content (\<lambda>prompt max_tokens. Inr []) (py ''AI'') ! 1) =
     [py ''Historical development and evolution'', py ''Key research contributions'',
       py ''Current state of technology'', py ''Gaps in existing knowledge''] \<and>
   list_all (\<lambda>p. \<not> (\<exists>pre post. p = pre @ py ''AI'' @ post))
     (points (generate_detailed_content (\<lambda>prompt max_tokens. Inr []) (py ''AI'') ! 1))"
proof -
  have "parse_outline (gpt_generate (\<lambda>prompt max_tokens. Inr [])
      (structure_prompt (py ''AI'')) 1500) = Inr []"
    by (simp add: gpt_generate_def ev)
  from generate_detailed_content_eq[OF this]
  have g: "generate_detailed_content (\<lambda>prompt max_tokens. Inr []) (py ''AI'') =
     fallback_sections (py ''AI'')"
    by simp
  have s: "points (fallback_sections (py ''AI'') ! 1) =
     [py ''Historical development and evolution'', py ''Key research contributions'',
       py ''Current state of technology'', py ''Gaps in existing knowledge'']"
    by (simp add: fallback_sections_def)
  have a: "65 \<in> set (py ''AI'')"
    by (simp add: py_def)
  have n: "list_all (\<lambda>p. 65 \<notin> set p)
     [py ''Historical development and evolution'', py ''Key research contributions'',
       py ''Current state of technology'', py ''Gaps in existing knowledge'']"
    by (simp add: py_def)
  have "list_all (\<lambda>p. \<not> (\<exists>pre post. p = pre @ py ''AI'' @ post))
     [py ''Historical development and evolution'', py ''Key research contributions'',
       py ''Current state of technology'', py ''Gaps in existing knowledge'']"
    using n not_infix[OF a] by simp
  with g s show ?thesis by simp
qed

subsection \<open>C4: the question and answer threshold\<close>

text \<open>
  Claim C4, as amended. When the question and answer parser yields fewer than 5 pairs, the
  pairs of \<open>generate_kit\<close> are the fixed template \<open>fallback_qna topic\<close>, and with 5 or more
  pairs they are the parsed pairs. The template has eight pairs. Each of its questions holds
  the topic, and so do the answers 1, 3, 5 and 6; the answers 2, 4, 7 and 8 are fixed texts.
\<close>

theorem qna_fallback_threshold:
  "(length (parse_qna text) < 5 \<longrightarrow> generate_kit_qna topic text = fallback_qna topic) \<and>
   (5 \<le> length (parse_qna text) \<longrightarrow> generate_kit_qna topic text = parse_qna text) \<and>
   length (fallback_qna topic) = 8 \<and>
   list_all (\<lambda>qa. \<exists>pre post. question qa = pre @ topic @ post) (fallback_qna topic) \<and>
   list_all (\<lambda>i. \<exists>pre post. answer (fallback_qna topic ! i) = pre @ topic @ post)
     [0, 2, 4, 5] \<and>
   map question (fallback_qna topic) =
     [py ''What is '' @ topic @ py '' and why is it important?'',
      py ''What are the key technical components of '' @ topic @ py ''?'',
      py ''What are the real-world applications of '' @ topic @ py ''?'',
      py ''What are the main advantages and limitations of '' @ topic @ py ''?'',
      py ''What does the future hold for '' @ topic @ py ''?'',
      py ''How does '' @ topic @ py '' compare with alternative approaches?'',
      py ''What are the main challenges in implementing '' @ topic @ py ''?'',
      py ''What research opportunities exist in '' @ topic @ py ''?''] \<and>
   map answer (fallback_qna topic) =
     [topic @ py '' is a significant technological advancement that plays a crucial role in modern applications. Its importance lies in its ability to solve complex problems and improve efficiency in various domains.'',
      py ''The main technical components include core algorithms, implementation frameworks, and supporting infrastructure. These components work together to provide comprehensive functionality.'',
      topic @ py '' finds applications in multiple industries including healthcare, finance, manufacturing, and telecommunications. It enables automation and optimization of complex processes.'',
      py ''Key advantages include improved efficiency, scalability, and cost-effectiveness. However, limitations may include implementation complexity, resource requirements, and technical constraints.'',
      py ''Future developments in '' @ topic @ py '' are expected to focus on enhanced performance, broader applications, and integration with emerging technologies. Research continues to address current limitations.'',
      py ''Compared to traditional methods, '' @ topic @ py '' offers superior performance in terms of speed, accuracy, and scalability. However, the choice depends on specific requirements and constraints.'',
      py ''Implementation challenges include technical complexity, resource allocation, skill requirements, and integration with existing systems. Proper planning and expertise are essential for success.'',
      py ''Research opportunities include algorithm optimization, new application domains, performance enhancement, and addressing current limitations. Interdisciplinary collaboration can lead to breakthrough innovations.'']"
proof -
  have 1: "length (parse_qna text) < 5 \<longrightarrow> generate_kit_qna topic text = fallback_qna topic"
    by (simp add: generate_kit_qna_def Let_def)
  have 2: "5 \<le> length (parse_qna text) \<longrightarrow> generate_kit_qna topic text = parse_qna text"
    by (simp add: generate_kit_qna_def Let_def)
  have 3: "length (fallback_qna topic) = 8"
    by (simp add: fallback_qna_def)
  have 4: "list_all (\<lambda>qa. \<exists>pre post. question qa = pre @ topic @ post) (fallback_qna topic)"
    by (simp add: fallback_qna_def mentions)
  have 5: "list_all (\<lambda>i. \<exists>pre post. answer (fallback_qna topic ! i) = pre @ topic @ post)
     [0, 2, 4, 5]"
    by (simp add: fallback_qna_def mentions mentions_first)
  have 6: "map question (fallback_qna topic) =
     [py ''What is '' @ topic @ py '' and why is it important?'',
      py ''What are the key technical components of '' @ topic @ py ''?'',
      py ''What are the real-world applications of '' @ topic @ py ''?'',
      py ''What are the main advantages and limitations of '' @ topic @ py ''?'',
      py ''What does the future hold for '' @ topic @ py ''?'',
      py ''How does '' @ topic @ py '' compare with alternative approaches?'',
      py ''What are the main challenges in implementing '' @ topic @ py ''?'',
      py ''What research opportunities exist in '' @ topic @ py ''?'']"
    by (simp add: fallback_qna_def)
  have 7: "map answer (fallback_qna topic) =
     [topic @ py '' is a significant technological advancement that plays a crucial role in modern applications. Its importance lies in its ability to solve complex problems and improve efficiency in various domains.'',
      py ''The main technical components include core algorithms, implementation frameworks, and supporting infrastructure. These components work together to provide comprehensive functionality.'',
      topic @ py '' finds applications in multiple industries including healthcare, finance, manufacturing, and telecommunications. It enables automation and optimization of complex processes.'',
      py ''Key advantages include improved efficiency, scalability, and cost-effectiveness. However, limitations may include implementation complexity, resource requirements, and technical constraints.'',
      py ''Future developments in '' @ topic @ py '' are expected to focus on enhanced performance, broader applications, and integration with emerging technologies. Research continues to address current limitations.'',
      py ''Compared to traditional methods, '' @ topic @ py '' offers superior performance in terms of speed, accuracy, and scalability. However, the choice depends on specific requirements and constraints.'',
      py ''Implementation challenges include technical complexity, resource allocation, skill requirements, and integration with existing systems. Proper planning and expertise are essential for success.'',
      py ''Research opportunities include algorithm optimization, new application domains, performance enhancement, and addressing current limitations. Interdisciplinary collaboration can lead to breakthrough innovations.'']"
    by (simp add: fallback_qna_def)
  from 1 2 3 4 5 6 7 show ?thesis by (intro conjI)
qed

text \<open>
  The theorem at a text of four pairs and at a text of five.
\<close>

theorem qna_fallback_threshold_witness:
  "generate_kit_qna (py ''AI'')
     (py ''Q: a\<newline>A: b\<newline>Q: c\<newline>A: d\<newline>Q: e\<newline>A: f\<newline>Q: g\<newline>A: h'') =
     fallback_qna (py ''AI'') \<and>
   generate_kit_qna (py ''AI'')
     (py ''Q: a\<newline>A: b\<newline>Q: c\<newline>A: d\<newline>Q: e\<newline>A: f\<newline>Q: g\<newline>A: h\<newline>Q: i\<newline>A: j'') =
     [\<lparr>question = py ''a'', answer = py ''b''\<rparr>, \<lparr>question = py ''c'', answer = py ''d''\<rparr>,
      \<lparr>question = py ''e'', answer = py ''f''\<rparr>, \<lparr>question = py ''g'', answer = py ''h''\<rparr>,
      \<lparr>question = py ''i'', answer = py ''j''\<rparr>]"
proof -
  have p4: "parse_qna (py ''Q: a\<newline>A: b\<newline>Q: c\<newline>A: d\<newline>Q: e\<newline>A: f\<newline>Q: g\<newline>A: h'') =
     [\<lparr>question = py ''a'', answer = py ''b''\<rparr>, \<lparr>question = py ''c'', answer = py ''d''\<rparr>,
      \<lparr>question = py ''e'', answer = py ''f''\<rparr>, \<lparr>question = py ''g'', answer = py ''h''\<rparr>]"
    by (simp add: ev)
  have p5: "parse_qna (py ''Q: a\<newline>A: b\<newline>Q: c\<newline>A: d\<newline>Q: e\<newline>A: f\<newline>Q: g\<newline>A: h\<newline>Q: i\<newline>A: j'') =
     [\<lparr>question = py ''a'', answer = py ''b''\<rparr>, \<lparr>question = py ''c'', answer = py ''d''\<rparr>,
      \<lparr>question = py ''e'', answer = py ''f''\<rparr>, \<lparr>question = py ''g'', answer = py ''h''\<rparr>,
      \<lparr>question = py ''i'', answer = py ''j''\<rparr>]"
    by (simp add: ev)
  from qna_fallback_threshold[of "py ''Q: a\<newline>A: b\<newline>Q: c\<newline>A: d\<newline>Q: e\<newline>A: f\<newline>Q: g\<newline>A: h''" "py ''AI''"]
  have a: "generate_kit_qna (py ''AI'')
     (py ''Q: a\<newline>A: b\<newline>Q: c\<newline>A: d\<newline>Q: e\<newline>A: f\<newline>Q: g\<newline>A: h'') =
     fallback_qna (py ''AI'')"
    unfolding p4 by simp
  from qna_fallback_threshold[of "py ''Q: a\<newline>A: b\<newline>Q: c\<newline>A: d\<newline>Q: e\<newline>A: f\<newline>Q: g\<newline>A: h\<newline>Q: i\<newline>A: j''" "py ''AI''"]
  have b: "generate_kit_qna (py ''AI'')
     (py ''Q: a\<newline>A: b\<newline>Q: c\<newline>A: d\<newline>Q: e\<newline>A: f\<newline>Q: g\<newline>A: h\<newline>Q: i\<newline>A: j'') =
     [\<lparr>question = py ''a'', answer = py ''b''\<rparr>, \<lparr>question = py ''c'', answer = py ''d''\<rparr>,
      \<lparr>question = py ''e'', answer = py ''f''\<rparr>, \<lparr>question = py ''g'', answer = py ''h''\<rparr>,
      \<lparr>question = py ''i'', answer = py ''j''\<rparr>]"
    unfolding p5 by simp
  from a b show ?thesis by (rule conjI)
qed

text \<open>
  The claim as stated fails: for the topic \<open>AI\<close> and an empty generated text the
  template is returned, and its second answer is a fixed text that does not contain the topic.
\<close>

theorem template_answer_fixed_counterexample:
  "generate_kit_qna (py ''AI'') [] = fallback_qna (py ''AI'') \<and>
   answer (generate_kit_qna (py ''AI'') [] ! 1) =
     py ''The main technical components include core algorithms, implementation frameworks, and supporting infrastructure. These components work together to provide comprehensive functionality.'' \<and>
   \<not> (\<exists>pre post. answer (generate_kit_qna (py ''AI'') [] ! 1) = pre @ py ''AI'' @ post)"
proof -
  have "parse_qna [] = []"
    by (simp add: ev)
  then have g: "generate_kit_qna (py ''AI'') [] = fallback_qna (py ''AI'')"
    by (simp add: generate_kit_qna_def)
  have s: "answer (fallback_qna (py ''AI'') ! 1) =
     py ''The main technical components include core algorithms, implementation frameworks, and supporting infrastructure. These components work together to provide comprehensive functionality.''"
    by (simp add: fallback_qna_def)
  have a: "65 \<in> set (py ''AI'')"
    by (simp add: py_def)
  have n: "65 \<notin> set (py ''The main technical components include core algorithms, implementation frameworks, and supporting infrastructure. These components work together to provide comprehensive functionality.'')"
    by (simp add: py_def)
  from not_infix[OF a n] g s show ?thesis by simp
qed

subsection \<open>C5: the text of a question\<close>

text \<open>
  Claim C5 says that a question line sets the current question to the line without its
  leading prefix, trimmed, the rest unchanged. Line 466 calls \<open>str.replace\<close>, which deletes
  every occurrence of \<open>Q:\<close> and of \<open>Question:\<close> wherever it stands: the line
  \<open>Q: What does FAQ: mean?\<close> becomes the question \<open>What does FA mean?\<close>. A line that
  starts with \<open>Question\<close> and has no colon right after the word keeps its prefix:
  \<open>Question 1: What is X?\<close> is stored whole.
\<close>

theorem question_prefix_removal_defect:
  "is_question_line (strip (py ''Q: What does FAQ: mean?'')) \<and>
   question_text (strip (py ''Q: What does FAQ: mean?'')) = py ''What does FA mean?'' \<and>
   parse_qna (py ''Q: What does FAQ: mean?\<newline>A: Frequently asked questions'') =
     [\<lparr>question = py ''What does FA mean?'', answer = py ''Frequently asked questions''\<rparr>] \<and>
   is_question_line (strip (py ''Question 1: What is X?'')) \<and>
   question_text (strip (py ''Question 1: What is X?'')) = py ''Question 1: What is X?''"
proof -
  have 1: "is_question_line (strip (py ''Q: What does FAQ: mean?''))"
    by (simp add: ev)
  have 2: "question_text (strip (py ''Q: What does FAQ: mean?'')) = py ''What does FA mean?''"
    by (simp add: ev)
  have 3: "parse_qna (py ''Q: What does FAQ: mean?\<newline>A: Frequently asked questions'') =
     [\<lparr>question = py ''What does FA mean?'', answer = py ''Frequently asked questions''\<rparr>]"
    by (simp add: ev)
  have 4: "is_question_line (strip (py ''Question 1: What is X?''))"
    by (simp add: ev)
  have 5: "question_text (strip (py ''Question 1: What is X?'')) = py ''Question 1: What is X?''"
    by (simp add: ev)
  from 1 2 3 4 5 show ?thesis by blast
qed

subsection \<open>C6: titles of parsed sections\<close>

text \<open>
  Claim C6, as amended. Every section the outline parser returns has a whitespace-trimmed
  title: stripping it changes nothing, and when it is not empty its first and last characters
  are not whitespace. The title is the stripped text after the first colon of a stripped input
  line that starts with \<open>Section\<close>. The title is empty when only whitespace follows that
  colon.
\<close>

theorem parsed_title_trimmed:
  "parse_outline text = Inr parsed \<and> sec \<in> set parsed \<longrightarrow>
     strip (title sec) = title sec \<and>
     (title sec = [] \<or> (\<not> is_space (hd (title sec)) \<and> \<not> is_space (last (title sec)))) \<and>
     (\<exists>raw pre rest. raw \<in> set (split_char newline text) \<and>
        startswith (strip raw) (py ''Section'') \<and>
        strip raw = pre @ colon # rest \<and> colon \<notin> set pre \<and> title sec = strip rest)"
proof
  assume a: "parse_outline text = Inr parsed \<and> sec \<in> set parsed"
  then have "from_line (split_char newline text) sec"
    using parse_outline_titles by blast
  then obtain raw where r: "raw \<in> set (split_char newline text)"
    and s: "is_section_start (strip raw)"
    and t: "section_title (strip raw) = Inr (title sec)"
    unfolding from_line_def by blast
  from t obtain rest where sp: "split1_snd colon (strip raw) = Inr rest"
    and ti: "title sec = strip rest"
    by (auto simp: section_title_def split: sum.splits)
  from split1_snd_Inr[OF sp] obtain pre where
    pre: "strip raw = pre @ colon # rest" "colon \<notin> set pre" by blast
  have 1: "strip (title sec) = title sec"
    unfolding ti by (rule strip_idem)
  have 2: "title sec = [] \<or> (\<not> is_space (hd (title sec)) \<and> \<not> is_space (last (title sec)))"
    unfolding ti using strip_trimmed[of rest] by blast
  have 3: "\<exists>raw pre rest. raw \<in> set (split_char newline text) \<and>
        startswith (strip raw) (py ''Section'') \<and>
        strip raw = pre @ colon # rest \<and> colon \<notin> set pre \<and> title sec = strip rest"
    using r s pre ti unfolding is_section_start_def by blast
  from 1 2 3 show "strip (title sec) = title sec \<and>
     (title sec = [] \<or> (\<not> is_space (hd (title sec)) \<and> \<not> is_space (last (title sec)))) \<and>
     (\<exists>raw pre rest. raw \<in> set (split_char newline text) \<and>
        startswith (strip raw) (py ''Section'') \<and>
        strip raw = pre @ colon # rest \<and> colon \<notin> set pre \<and> title sec = strip rest)"
    by blast
qed

text \<open>
  The theorem at an outline whose second section line is \<open>Section 2:  B \<close>.
\<close>

theorem parsed_title_trimmed_witness:
  "parse_outline (py ''Section 1:\<newline>- p\<newline>Section 2:  B \<newline>Section 3: C\<newline>Section 4: D'') =
     Inr [\<lparr>title = [], points = [py ''p''], sub_points = Some []\<rparr>,
      \<lparr>title = py ''B'', points = [], sub_points = Some []\<rparr>,
      \<lparr>title = py ''C'', points = [], sub_points = Some []\<rparr>,
      \<lparr>title = py ''D'', points = [], sub_points = Some []\<rparr>] \<and>
   strip (py ''B'') = py ''B'' \<and>
   \<not> is_space (hd (py ''B'')) \<and> \<not> is_space (last (py ''B''))"
proof -
  have p4: "parse_outline (py ''Section 1:\<newline>- p\<newline>Section 2:  B \<newline>Section 3: C\<newline>Section 4: D'') =
     Inr [\<lparr>title = [], points = [py ''p''], sub_points = Some []\<rparr>,
      \<lparr>title = py ''B'', points = [], sub_points = Some []\<rparr>,
      \<lparr>title = py ''C'', points = [], sub_points = Some []\<rparr>,
      \<lparr>title = py ''D'', points = [], sub_points = Some []\<rparr>]"
    by (simp add: ev)
  have ne: "py ''B'' \<noteq> []" by (simp add: py_def)
  from parsed_title_trimmed[of
      "py ''Section 1:\<newline>- p\<newline>Section 2:  B \<newline>Section 3: C\<newline>Section 4: D''"
      "[\<lparr>title = [], points = [py ''p''], sub_points = Some []\<rparr>,
      \<lparr>title = py ''B'', points = [], sub_points = Some []\<rparr>,
      \<lparr>title = py ''C'', points = [], sub_points = Some []\<rparr>,
      \<lparr>title = py ''D'', points = [], sub_points = Some []\<rparr>]"
      "\<lparr>title = py ''B'', points = [], sub_points = Some []\<rparr>"] p4 ne
  have "strip (py ''B'') = py ''B'' \<and>
   \<not> is_space (hd (py ''B'')) \<and> \<not> is_space (last (py ''B''))"
    by simp
  with p4 show ?thesis by (rule conjI)
qed

text \<open>
  The claim as stated fails: the line \<open>Section 1:\<close> opens a section whose title is
  empty, and with four sections the list is what \<open>generate_detailed_content\<close> returns.
\<close>

theorem parsed_title_empty_counterexample:
  "parse_outline (py ''Section 1:\<newline>- p\<newline>Section 2: B\<newline>Section 3: C\<newline>Section 4: D'') =
     Inr [\<lparr>title = [], points = [py ''p''], sub_points = Some []\<rparr>,
      \<lparr>title = py ''B'', points = [], sub_points = Some []\<rparr>,
      \<lparr>title = py ''C'', points = [], sub_points = Some []\<rparr>,
      \<lparr>title = py ''D'', points = [], sub_points = Some []\<rparr>] \<and>
   title (hd (generate_detailed_content
       (\<lambda>prompt max_tokens. Inr (py ''Section 1:\<newline>- p\<newline>Section 2: B\<newline>Section 3: C\<newline>Section 4: D''))
       (py ''AI''))) = []"
proof -
  have p4: "parse_outline (py ''Section 1:\<newline>- p\<newline>Section 2: B\<newline>Section 3: C\<newline>Section 4: D'') =
     Inr [\<lparr>title = [], points = [py ''p''], sub_points = Some []\<rparr>,
      \<lparr>title = py ''B'', points = [], sub_points = Some []\<rparr>,
      \<lparr>title = py ''C'', points = [], sub_points = Some []\<rparr>,
      \<lparr>title = py ''D'', points = [], sub_points = Some []\<rparr>]"
    by (simp add: ev)
  have "parse_outline (gpt_generate (\<lambda>prompt max_tokens. Inr (py ''Section 1:\<newline>- p\<newline>Section 2: B\<newline>Section 3: C\<newline>Section 4: D''))
      (structure_prompt (py ''AI'')) 1500) =
     Inr [\<lparr>title = [], points = [py ''p''], sub_points = Some []\<rparr>,
      \<lparr>title = py ''B'', points = [], sub_points = Some []\<rparr>,
      \<lparr>title = py ''C'', points = [], sub_points = Some []\<rparr>,
      \<lparr>title = py ''D'', points = [], sub_points = Some []\<rparr>]"
    by (simp add: gpt_generate_def ev)
  from generate_detailed_content_eq[OF this]
  have "title (hd (generate_detailed_content
       (\<lambda>prompt max_tokens. Inr (py ''Section 1:\<newline>- p\<newline>Section 2: B\<newline>Section 3: C\<newline>Section 4: D''))
       (py ''AI''))) = []"
    by simp
  with p4 show ?thesis by (rule conjI)
qed

subsection \<open>C7: an orphaned question\<close>

text \<open>
  Claim C7. A question that gets no answer line before the next question line is dropped
  and adds no pair. From any state, after a question line, any lines none of which is an
  answer line, and a second question line, the pairs are those flushed by the first question
  line, the current question is the text of the second line and the answer slot is empty:
  nothing of the first question is left. In particular a question line met with an empty
  answer slot leaves the pairs as they are. For the lines \<open>Q: first\<close>, \<open>Q: second\<close>,
  \<open>A: only answer\<close> the parser returns exactly the pair of \<open>second\<close> and \<open>only answer\<close>.
\<close>

theorem orphaned_question_discarded:
  "(is_question_line (strip q1) \<and> list_all (\<lambda>l. \<not> is_answer_line (strip l)) between \<and>
    is_question_line (strip q2) \<longrightarrow>
      foldl qna_step st (q1 # between @ [q2]) =
        \<lparr>qna_pairs = flush_pair st, current_q = question_text (strip q2), current_a = []\<rparr>) \<and>
   (current_a st = [] \<and> is_question_line (strip q) \<longrightarrow>
      qna_step st q =
        \<lparr>qna_pairs = qna_pairs st, current_q = question_text (strip q), current_a = []\<rparr>) \<and>
   parse_qna (py ''Q: first\<newline>Q: second\<newline>A: only answer'') =
     [\<lparr>question = py ''second'', answer = py ''only answer''\<rparr>]"
proof -
  have 1: "is_question_line (strip q1) \<and> list_all (\<lambda>l. \<not> is_answer_line (strip l)) between \<and>
    is_question_line (strip q2) \<longrightarrow>
      foldl qna_step st (q1 # between @ [q2]) =
        \<lparr>qna_pairs = flush_pair st, current_q = question_text (strip q2), current_a = []\<rparr>"
  proof
    assume a: "is_question_line (strip q1) \<and>
      list_all (\<lambda>l. \<not> is_answer_line (strip l)) between \<and> is_question_line (strip q2)"
    define st1 where "st1 = qna_step st q1"
    define st2 where "st2 = foldl qna_step st1 between"
    from a have s1: "st1 =
        \<lparr>qna_pairs = flush_pair st, current_q = question_text (strip q1), current_a = []\<rparr>"
      unfolding st1_def by (simp add: qna_question_step)
    then have e1: "current_a st1 = []" and p1: "qna_pairs st1 = flush_pair st" by simp_all
    from a have "list_all (\<lambda>l. \<not> is_answer_line (strip l)) between" by simp
    from qna_loop_no_answer[OF e1 this]
    have p2: "qna_pairs st2 = flush_pair st" and e2: "current_a st2 = []"
      unfolding st2_def by (simp_all add: p1)
    from a have "qna_step st2 q2 =
        \<lparr>qna_pairs = flush_pair st2, current_q = question_text (strip q2), current_a = []\<rparr>"
      by (simp add: qna_question_step)
    also have "flush_pair st2 = flush_pair st"
      using flush_pair_empty_answer[OF e2] p2 by simp
    finally have "qna_step st2 q2 =
        \<lparr>qna_pairs = flush_pair st, current_q = question_text (strip q2), current_a = []\<rparr>" .
    moreover have "foldl qna_step st (q1 # between @ [q2]) = qna_step st2 q2"
      by (simp add: st1_def st2_def)
    ultimately show "foldl qna_step st (q1 # between @ [q2]) =
        \<lparr>qna_pairs = flush_pair st, current_q = question_text (strip q2), current_a = []\<rparr>"
      by simp
  qed
  have 2: "current_a st = [] \<and> is_question_line (strip q) \<longrightarrow>
      qna_step st q =
        \<lparr>qna_pairs = qna_pairs st, current_q = question_text (strip q), current_a = []\<rparr>"
    by (simp add: qna_question_step flush_pair_empty_answer)
  have 3: "parse_qna (py ''Q: first\<newline>Q: second\<newline>A: only answer'') =
     [\<lparr>question = py ''second'', answer = py ''only answer''\<rparr>]"
    by (simp add: ev)
  from 1 2 3 show ?thesis by (intro conjI)
qed

text \<open>
  The theorem at the lines \<open>Q: first\<close>, \<open>see note\<close>, \<open>Q: second\<close>, from the initial
  state.
\<close>

theorem orphaned_question_discarded_witness:
  "foldl qna_step \<lparr>qna_pairs = [], current_q = [], current_a = []\<rparr>
     [py ''Q: first'', py ''see note'', py ''Q: second''] =
     \<lparr>qna_pairs = [], current_q = py ''second'', current_a = []\<rparr>"
proof -
  have q1: "is_question_line (strip (py ''Q: first''))"
    by (simp add: ev)
  have q2: "is_question_line (strip (py ''Q: second''))"
    by (simp add: ev)
  have n: "list_all (\<lambda>l. \<not> is_answer_line (strip l)) [py ''see note'']"
    by (simp add: ev)
  have f: "flush_pair \<lparr>qna_pairs = [], current_q = [], current_a = []\<rparr> = []"
    by (simp add: flush_pair_def)
  have t: "question_text (strip (py ''Q: second'')) = py ''second''"
    by (simp add: ev)
  from orphaned_question_discarded[of "py ''Q: first''" "[py ''see note'']" "py ''Q: second''"
      "\<lparr>qna_pairs = [], current_q = [], current_a = []\<rparr>", THEN conjunct1] q1 q2 n
  show ?thesis by (simp add: f t)
qed

subsection \<open>C8: the number of slides\<close>

text \<open>
  Claim C8. For k sections the deck of \<open>generate_enhanced_pptx\<close> has exactly k + 3 slides:
  the title slide and the agenda slide, then one content slide per section in order, then the
  conclusion slide. The renderer returns a file name exactly when building this deck raised
  nothing and saving this deck at the generated path returned normally and left a file there.
  With a save that records at the path the number of slides it is given, a render of k
  sections leaves k + 3.
\<close>

theorem slide_count:
  "length (presentation upper topic secs info) = length secs + 3 \<and>
   take 2 (presentation upper topic secs info) = [title_slide upper topic info, agenda_slide secs] \<and>
   take (length secs) (drop 2 (presentation upper topic secs info)) =
     map (content_slide upper) secs \<and>
   drop (length secs + 2) (presentation upper topic secs info) = [conclusion_slide topic] \<and>
   (generate_enhanced_pptx upper build STATIC_PATH file_id save topic secs info fs0 =
      (Inr filename, fs1) \<longleftrightarrow>
    filename = py ''seminar_'' @ file_id @ py ''.pptx'' \<and>
    length ([title_slide upper topic info, agenda_slide secs] @ map (content_slide upper) secs
        @ [conclusion_slide topic]) = length secs + 3 \<and>
    build ([title_slide upper topic info, agenda_slide secs] @ map (content_slide upper) secs
        @ [conclusion_slide topic]) = None \<and>
    save ([title_slide upper topic info, agenda_slide secs] @ map (content_slide upper) secs
        @ [conclusion_slide topic])
      (os_path_join STATIC_PATH (py ''seminar_'' @ file_id @ py ''.pptx'')) fs0 = (None, fs1) \<and>
    fs1 (os_path_join STATIC_PATH (py ''seminar_'' @ file_id @ py ''.pptx'')) \<noteq> None) \<and>
   (build (presentation upper topic secs info) = None \<longrightarrow>
    generate_enhanced_pptx upper build STATIC_PATH file_id
      (\<lambda>prs path store. (None, store(path \<mapsto> length prs))) topic secs info fs0 =
      (Inr (py ''seminar_'' @ file_id @ py ''.pptx''),
       fs0(os_path_join STATIC_PATH (py ''seminar_'' @ file_id @ py ''.pptx'') \<mapsto> length secs + 3)))"
proof -
  have d: "presentation upper topic secs info =
      [title_slide upper topic info, agenda_slide secs] @ map (content_slide upper) secs
        @ [conclusion_slide topic]"
    by (simp add: presentation_def)
  have 1: "length (presentation upper topic secs info) = length secs + 3"
    by (rule presentation_length)
  have 2: "take 2 (presentation upper topic secs info) = [title_slide upper topic info, agenda_slide secs]"
    by (simp add: presentation_def)
  have 3: "take (length secs) (drop 2 (presentation upper topic secs info)) =
     map (content_slide upper) secs"
    by (simp add: presentation_def)
  have 4: "drop (length secs + 2) (presentation upper topic secs info) = [conclusion_slide topic]"
    by (simp add: presentation_def)
  have 5: "generate_enhanced_pptx upper build STATIC_PATH file_id save topic secs info fs0 =
      (Inr filename, fs1) \<longleftrightarrow>
    filename = py ''seminar_'' @ file_id @ py ''.pptx'' \<and>
    length ([title_slide upper topic info, agenda_slide secs] @ map (content_slide upper) secs
        @ [conclusion_slide topic]) = length secs + 3 \<and>
    build ([title_slide upper topic info, agenda_slide secs] @ map (content_slide upper) secs
        @ [conclusion_slide topic]) = None \<and>
    save ([title_slide upper topic info, agenda_slide secs] @ map (content_slide upper) secs
        @ [conclusion_slide topic])
      (os_path_join STATIC_PATH (py ''seminar_'' @ file_id @ py ''.pptx'')) fs0 = (None, fs1) \<and>
    fs1 (os_path_join STATIC_PATH (py ''seminar_'' @ file_id @ py ''.pptx'')) \<noteq> None"
    using pptx_returns[of upper build STATIC_PATH file_id save topic secs info fs0 filename fs1]
    unfolding d by auto
  have 6: "build (presentation upper topic secs info) = None \<longrightarrow>
    generate_enhanced_pptx upper build STATIC_PATH file_id
      (\<lambda>prs path store. (None, store(path \<mapsto> length prs))) topic secs info fs0 =
      (Inr (py ''seminar_'' @ file_id @ py ''.pptx''),
       fs0(os_path_join STATIC_PATH (py ''seminar_'' @ file_id @ py ''.pptx'') \<mapsto> length secs + 3))"
    using pptx_returns[of upper build STATIC_PATH file_id
        "\<lambda>prs path store. (None, store(path \<mapsto> length prs))" topic secs info fs0
        "py ''seminar_'' @ file_id @ py ''.pptx''"
        "fs0(os_path_join STATIC_PATH (py ''seminar_'' @ file_id @ py ''.pptx'') \<mapsto> length secs + 3)"]
    by (simp add: presentation_length)
  from 1 2 3 4 5 6 show ?thesis by (intro conjI)
qed

text \<open>
  The theorem at an outline of two sections, with the recording save: five slides.
\<close>

theorem slide_count_witness:
  "generate_enhanced_pptx ascii_upper (\<lambda>prs. None) (py ''/srv/generated_files'') (py ''id1'')
      (\<lambda>prs path store. (None, store(path \<mapsto> length prs))) (py ''AI'')
      [\<lparr>title = py ''A'', points = [py ''p''], sub_points = Some []\<rparr>,
       \<lparr>title = py ''B'', points = [], sub_points = None\<rparr>]
      \<lparr>name = py ''N'', roll = py ''1'', college = py ''C'',
             semester = py ''5'', branch = py ''CS''\<rparr> (\<lambda>p. None) =
     (Inr (py ''seminar_'' @ py ''id1'' @ py ''.pptx''),
      (\<lambda>p. None)(os_path_join (py ''/srv/generated_files'') (py ''seminar_'' @ py ''id1'' @ py ''.pptx'') \<mapsto> 5))"
  using slide_count[where upper = ascii_upper and build = "\<lambda>prs. None"
      and STATIC_PATH = "py ''/srv/generated_files''" and file_id = "py ''id1''" and topic = "py ''AI''"
      and secs = "[\<lparr>title = py ''A'', points = [py ''p''], sub_points = Some []\<rparr>,
       \<lparr>title = py ''B'', points = [], sub_points = None\<rparr>]"
      and info = "\<lparr>name = py ''N'', roll = py ''1'', college = py ''C'',
             semester = py ''5'', branch = py ''CS''\<rparr>" and ?fs0.0 = "\<lambda>p. None"]
  by simp

subsection \<open>C9: retrieval of a missing or empty artifact\<close>

text \<open>
  Claim C9. \<open>download_file\<close> raises the HTTP error 404 when nothing exists at the path of
  the requested name and the HTTP error 500 when the file there has length zero. A response is
  returned only for an existing file of positive length, and it serves that very path.
\<close>

theorem download_missing_or_empty:
  "(store (os_path_join STATIC_PATH filename) = None \<longrightarrow>
      download_file STATIC_PATH store filename = Inl (HTTPException 404 (py ''File not found''))) \<and>
   (store (os_path_join STATIC_PATH filename) = Some 0 \<longrightarrow>
      download_file STATIC_PATH store filename =
        Inl (HTTPException 500 (py ''Generated file is empty''))) \<and>
   (\<forall>resp. download_file STATIC_PATH store filename = Inr resp \<longrightarrow>
      (\<exists>n. store (os_path_join STATIC_PATH filename) = Some n \<and> 0 < n) \<and>
      resp_path resp = os_path_join STATIC_PATH filename)"
  by (auto simp: download_file_def Let_def split: option.splits if_splits)

text \<open>
  The theorem at an empty store and at a store holding a file of length zero.
\<close>

theorem download_missing_or_empty_witness:
  "download_file (py ''/srv/generated_files'') (\<lambda>p. None) (py ''seminar_1.pptx'') =
     Inl (HTTPException 404 (py ''File not found'')) \<and>
   download_file (py ''/srv/generated_files'')
     ((\<lambda>p. None)(py ''/srv/generated_files/seminar_1.pptx'' \<mapsto> 0)) (py ''seminar_1.pptx'') =
     Inl (HTTPException 500 (py ''Generated file is empty''))"
proof -
  have j: "os_path_join (py ''/srv/generated_files'') (py ''seminar_1.pptx'') =
      py ''/srv/generated_files/seminar_1.pptx''"
    by (simp add: os_path_join_def startswith_def endswith_def py_def)
  from download_missing_or_empty[of "\<lambda>p. None" "py ''/srv/generated_files''" "py ''seminar_1.pptx''"]
  have a: "download_file (py ''/srv/generated_files'') (\<lambda>p. None) (py ''seminar_1.pptx'') =
     Inl (HTTPException 404 (py ''File not found''))"
    by simp
  from download_missing_or_empty[of "(\<lambda>p. None)(py ''/srv/generated_files/seminar_1.pptx'' \<mapsto> 0)"
      "py ''/srv/generated_files''" "py ''seminar_1.pptx''"]
  have b: "download_file (py ''/srv/generated_files'')
     ((\<lambda>p. None)(py ''/srv/generated_files/seminar_1.pptx'' \<mapsto> 0)) (py ''seminar_1.pptx'') =
     Inl (HTTPException 500 (py ''Generated file is empty''))"
    unfolding j by simp
  from a b show ?thesis by (rule conjI)
qed

subsection \<open>C10: exceptions in the outline stage\<close>




end
